theory Spec2Isabelle
  imports Main "HOL-Library.Word"
begin

unbundle bit_operations_syntax

section \<open>JavaScript values the relay handles\<close>

text \<open>
  A JavaScript string is a sequence of 16-bit code units. \<open>lit\<close> reads an ASCII literal of
  the source as such a sequence.
\<close>

type_synonym jsstring = "16 word list"

definition lit :: "string \<Rightarrow> jsstring" where
  "lit s = map of_char s"

text \<open>
  The errors the handlers can catch. Each carries the text that \<open>err.message\<close> reads.
  The type errors the handler's own expressions raise carry the wording of V8, the engine of
  the Workers runtime.
\<close>

datatype error =
    TypeError (message: jsstring)
  | SyntaxError (message: jsstring)
  | Error (message: jsstring)

text \<open>
  What the runtime rejects a promise with when \<open>request.json()\<close>, \<open>fetch\<close>,
  \<open>openaiRes.text()\<close> or \<open>openaiRes.json()\<close> fails: an error the runtime itself has worded
  (the \<open>Unexpected end of JSON input\<close> of V8's JSON parser, the network errors of the Workers
  runtime), and it leaves no such message empty. \<open>caught\<close> is that error, as the \<open>catch\<close> block
  receives it.
\<close>

typedef rejection = "{err :: error. message err \<noteq> []}"
  morphisms caught Rejection
  by (rule exI [of _ "TypeError [0]"]) simp

text \<open>
  The result of \<open>JSON.parse\<close>. A number is kept as its canonical decimal text (what
  \<open>Number::toString\<close> gives for it: \<open>800\<close>, \<open>0.5\<close>, \<open>1e+21\<close>, \<open>Infinity\<close>),
  which fixes the number up to the sign of zero; \<open>JSON.parse\<close> never yields NaN. An object is
  the list of its own properties in enumeration order, so its keys are pairwise distinct.
  \<open>undefined\<close> is \<open>None\<close> of \<open>json option\<close>.
\<close>

datatype json =
    JNull
  | JBool bool
  | JNum jsstring
  | JStr jsstring
  | JArr "json list"
  | JObj "(jsstring \<times> json) list"

text \<open>\<open>ToBoolean\<close>, as \<open>&&\<close> and \<open>||\<close> apply it.\<close>

fun truthy :: "json option \<Rightarrow> bool" where
  "truthy None = False"
| "truthy (Some JNull) = False"
| "truthy (Some (JBool b)) = b"
| "truthy (Some (JNum t)) = (t \<noteq> lit ''0'')"
| "truthy (Some (JStr s)) = (s \<noteq> [])"
| "truthy (Some (JArr xs)) = True"
| "truthy (Some (JObj kvs)) = True"

text \<open>
  Property access \<open>v[k]\<close> and \<open>v.k\<close>, for the property names the handlers read
  (\<open>name\<close>, \<open>roast\<close>, ..., \<open>choices\<close>, \<open>message\<close>, \<open>content\<close>): none of them is defined on a
  builtin prototype, so only an object's own property can answer. Reading a property of
  \<open>null\<close> throws.
\<close>

fun getProp :: "json \<Rightarrow> jsstring \<Rightarrow> error + json option" where
  "getProp JNull k =
     Inl (TypeError (lit ''Cannot read properties of null (reading '' @ [0x27] @ k @ [0x27] @ lit '')''))"
| "getProp (JObj kvs) k = Inr (map_of kvs k)"
| "getProp (JBool b) k = Inr None"
| "getProp (JNum t) k = Inr None"
| "getProp (JStr s) k = Inr None"
| "getProp (JArr xs) k = Inr None"

text \<open>Optional chaining \<open>v?.k\<close>: \<open>undefined\<close> when \<open>v\<close> is \<open>undefined\<close> or \<open>null\<close>.\<close>

fun optProp :: "json option \<Rightarrow> jsstring \<Rightarrow> json option" where
  "optProp None k = None"
| "optProp (Some JNull) k = None"
| "optProp (Some (JObj kvs)) k = map_of kvs k"
| "optProp (Some (JBool b)) k = None"
| "optProp (Some (JNum t)) k = None"
| "optProp (Some (JStr s)) k = None"
| "optProp (Some (JArr xs)) k = None"

text \<open>
  \<open>v?.[0]\<close>: the first element of an array, the first code unit of a string, the own
  property \<open>"0"\<close> of an object.
\<close>

fun optIndex0 :: "json option \<Rightarrow> json option" where
  "optIndex0 None = None"
| "optIndex0 (Some JNull) = None"
| "optIndex0 (Some (JArr [])) = None"
| "optIndex0 (Some (JArr (x # xs))) = Some x"
| "optIndex0 (Some (JStr [])) = None"
| "optIndex0 (Some (JStr (c # cs))) = Some (JStr [c])"
| "optIndex0 (Some (JObj kvs)) = map_of kvs (lit ''0'')"
| "optIndex0 (Some (JBool b)) = None"
| "optIndex0 (Some (JNum t)) = None"

text \<open>\<open>v || ''\<close>\<close>

fun orEmpty :: "json option \<Rightarrow> json" where
  "orEmpty None = JStr []"
| "orEmpty (Some v) = (if truthy (Some v) then v else JStr [])"

subsection \<open>Conversion to string\<close>

text \<open>
  The abstract operation \<open>ToString\<close>, which a template literal applies to its substitutions.
  An array goes through \<open>Array.prototype.toString\<close>, that is \<open>join\<close> with a comma, where
  \<open>null\<close> elements give the empty string. A plain object gives \<open>[object Object]\<close>, unless it
  has an own property \<open>toString\<close>: a value parsed from JSON is never callable, and
  \<open>Object.prototype.valueOf\<close> returns the object itself, so no primitive is found.
\<close>

fun ToString :: "json \<Rightarrow> error + jsstring"
  and elementToString :: "json \<Rightarrow> error + jsstring"
  and Array_join :: "json list \<Rightarrow> error + jsstring"
where
  "ToString JNull = Inr (lit ''null'')"
| "ToString (JBool b) = Inr (if b then lit ''true'' else lit ''false'')"
| "ToString (JNum t) = Inr t"
| "ToString (JStr s) = Inr s"
| "ToString (JArr xs) = Array_join xs"
| "ToString (JObj kvs) =
     (if map_of kvs (lit ''toString'') \<noteq> None
      then Inl (TypeError (lit ''Cannot convert object to primitive value''))
      else Inr (lit ''[object Object]''))"
| "elementToString x = (if x = JNull then Inr [] else ToString x)"
| "Array_join [] = Inr []"
| "Array_join [x] = elementToString x"
| "Array_join (x # y # ys) =
     (case elementToString x of
        Inl err \<Rightarrow> Inl err
      | Inr s \<Rightarrow>
          (case Array_join (y # ys) of
             Inl err \<Rightarrow> Inl err
           | Inr r \<Rightarrow> Inr (s @ lit '','' @ r)))"

text \<open>\<open>ToString\<close> of a value that may be \<open>undefined\<close>.\<close>

fun ToString_opt :: "json option \<Rightarrow> error + jsstring" where
  "ToString_opt None = Inr (lit ''undefined'')"
| "ToString_opt (Some v) = ToString v"

text \<open>
  The method call \<open>v.toString()\<close>. On \<open>undefined\<close> and \<open>null\<close> the property read throws;
  booleans, numbers and strings use the method of their prototype; an object with an own
  property \<open>toString\<close> has a value there that cannot be called.
\<close>

fun toString_call :: "json option \<Rightarrow> error + jsstring" where
  "toString_call None =
     Inl (TypeError (lit ''Cannot read properties of undefined (reading '' @ [0x27] @ lit ''toString'' @ [0x27] @ lit '')''))"
| "toString_call (Some JNull) =
     Inl (TypeError (lit ''Cannot read properties of null (reading '' @ [0x27] @ lit ''toString'' @ [0x27] @ lit '')''))"
| "toString_call (Some (JBool b)) = Inr (if b then lit ''true'' else lit ''false'')"
| "toString_call (Some (JNum t)) = Inr t"
| "toString_call (Some (JStr s)) = Inr s"
| "toString_call (Some (JArr xs)) = Array_join xs"
| "toString_call (Some (JObj kvs)) =
     (if map_of kvs (lit ''toString'') \<noteq> None
      then Inl (TypeError (lit ''body[key].toString is not a function''))
      else Inr (lit ''[object Object]''))"

subsection \<open>String methods\<close>

text \<open>The code units \<open>String.prototype.trim\<close> strips: white space and line terminators.\<close>

definition isWhiteSpace :: "16 word \<Rightarrow> bool" where
  "isWhiteSpace c =
     (c = 0x09 \<or> c = 0x0A \<or> c = 0x0B \<or> c = 0x0C \<or> c = 0x0D \<or> c = 0x20 \<or> c = 0xA0 \<or>
      c = 0x1680 \<or> (0x2000 \<le> c \<and> c \<le> 0x200A) \<or> c = 0x2028 \<or> c = 0x2029 \<or>
      c = 0x202F \<or> c = 0x205F \<or> c = 0x3000 \<or> c = 0xFEFF)"

definition trim :: "jsstring \<Rightarrow> jsstring" where
  "trim s = rev (dropWhile isWhiteSpace (rev (dropWhile isWhiteSpace s)))"

text \<open>\<open>lines.join(sep)\<close> on an array of strings.\<close>

fun join :: "jsstring list \<Rightarrow> jsstring \<Rightarrow> jsstring" where
  "join [] sep = []"
| "join [x] sep = x"
| "join (x # y # ys) sep = x @ sep @ join (y # ys) sep"

subsection \<open>\<open>JSON.stringify\<close>\<close>

definition hexDigit :: "16 word \<Rightarrow> 16 word" where
  "hexDigit d = (if d < 10 then 0x30 + d else 0x61 + (d - 10))"

definition UnicodeEscape :: "16 word \<Rightarrow> jsstring" where
  "UnicodeEscape c =
     [0x5C, 0x75, hexDigit (drop_bit 12 c AND 0xF), hexDigit (drop_bit 8 c AND 0xF),
      hexDigit (drop_bit 4 c AND 0xF), hexDigit (c AND 0xF)]"

definition isLeadingSurrogate :: "16 word \<Rightarrow> bool" where
  "isLeadingSurrogate c = (0xD800 \<le> c \<and> c \<le> 0xDBFF)"

definition isTrailingSurrogate :: "16 word \<Rightarrow> bool" where
  "isTrailingSurrogate c = (0xDC00 \<le> c \<and> c \<le> 0xDFFF)"

text \<open>One code unit of \<open>QuoteJSONString\<close> that is not half of a surrogate pair.\<close>

definition quoteUnit :: "16 word \<Rightarrow> jsstring" where
  "quoteUnit c =
     (if c = 0x08 then [0x5C, 0x62]
      else if c = 0x09 then [0x5C, 0x74]
      else if c = 0x0A then [0x5C, 0x6E]
      else if c = 0x0C then [0x5C, 0x66]
      else if c = 0x0D then [0x5C, 0x72]
      else if c = 0x22 then [0x5C, 0x22]
      else if c = 0x5C then [0x5C, 0x5C]
      else if c < 0x20 \<or> isLeadingSurrogate c \<or> isTrailingSurrogate c then UnicodeEscape c
      else [c])"

fun quoteUnits :: "jsstring \<Rightarrow> jsstring" where
  "quoteUnits [] = []"
| "quoteUnits [c] = quoteUnit c"
| "quoteUnits (c # d # ds) =
     (if isLeadingSurrogate c \<and> isTrailingSurrogate d then c # d # quoteUnits ds
      else quoteUnit c @ quoteUnits (d # ds))"

definition QuoteJSONString :: "jsstring \<Rightarrow> jsstring" where
  "QuoteJSONString s = [0x22] @ quoteUnits s @ [0x22]"

text \<open>
  \<open>JSON.stringify\<close> without indentation. A number that is not finite is written \<open>null\<close>.
  No value here is \<open>undefined\<close> or has a \<open>toJSON\<close> method that could be called.
\<close>

fun JSON_stringify :: "json \<Rightarrow> jsstring" where
  "JSON_stringify JNull = lit ''null''"
| "JSON_stringify (JBool b) = (if b then lit ''true'' else lit ''false'')"
| "JSON_stringify (JNum t) =
     (if t = lit ''Infinity'' \<or> t = lit ''-Infinity'' then lit ''null'' else t)"
| "JSON_stringify (JStr s) = QuoteJSONString s"
| "JSON_stringify (JArr xs) = lit ''['' @ join (map JSON_stringify xs) (lit '','') @ lit '']''"
| "JSON_stringify (JObj kvs) =
     lit ''{'' @
     join (map (\<lambda>(k, v). QuoteJSONString k @ lit '':'' @ JSON_stringify v) kvs) (lit '','') @
     lit ''}''"

section \<open>The platform around the handlers\<close>

text \<open>
  An inbound request, as far as the handlers look at it: its method, and what
  \<open>await request.json()\<close> gives, the parsed body or the error it rejects with.
\<close>

record request =
  "method" :: jsstring
  request_json :: "rejection + json"

text \<open>The environment bindings; a binding that is not configured reads as \<open>undefined\<close>.\<close>

record env =
  OPENAI_API_KEY :: "jsstring option"

fun bindingText :: "jsstring option \<Rightarrow> jsstring" where
  "bindingText None = lit ''undefined''"
| "bindingText (Some s) = s"

text \<open>The context a Pages function receives.\<close>

record pagesContext =
  request :: request
  env :: env

text \<open>The arguments of one call of the global \<open>fetch\<close>.\<close>

record outbound =
  fetch_url :: jsstring
  fetch_method :: jsstring
  fetch_headers :: "(jsstring \<times> jsstring) list"
  fetch_body :: jsstring

text \<open>
  What the upstream answers: \<open>openaiRes.ok\<close>, and what \<open>await openaiRes.text()\<close> and
  \<open>await openaiRes.json()\<close> give. The global \<open>fetch\<close> is a parameter of the handlers: it
  maps the call to the response, or to the error the call rejects with.
\<close>

record openaiResponse =
  openai_ok :: bool
  openai_text :: "rejection + jsstring"
  openai_json :: "rejection + json"

type_synonym upstream = "outbound \<Rightarrow> rejection + openaiResponse"

text \<open>\<open>new Response(body, { status, headers })\<close>\<close>

record response =
  status :: nat
  headers :: "(jsstring \<times> jsstring) list"
  body :: jsstring

section \<open>Building the user message\<close>

text \<open>
  \<open>Object.keys\<close> of an object literal whose keys are no array indices: the keys as written.
\<close>

definition Object_keys :: "(jsstring \<times> jsstring) list \<Rightarrow> jsstring list" where
  "Object_keys obj = map fst obj"

text \<open>The label \<open>mapping[key]\<close>, as the template literal prints it.\<close>

definition mappingText :: "(jsstring \<times> jsstring) list \<Rightarrow> jsstring \<Rightarrow> jsstring" where
  "mappingText mapping key =
     (case map_of mapping key of None \<Rightarrow> lit ''undefined'' | Some label \<Rightarrow> label)"

text \<open>
  The loop \<open>for (const key of Object.keys(mapping))\<close> over the keys that remain, with the
  lines pushed so far. The three handlers carry the same loop, each over its own
  \<open>mapping\<close>. An error is the exception that leaves the loop.
\<close>

fun pushLines ::
  "(jsstring \<times> jsstring) list \<Rightarrow> json \<Rightarrow> jsstring list \<Rightarrow> jsstring list \<Rightarrow> error + jsstring list"
where
  "pushLines mapping parsed [] lines = Inr lines"
| "pushLines mapping parsed (key # keys) lines =
     (case getProp parsed key of
        Inl err \<Rightarrow> Inl err
      | Inr v \<Rightarrow>
          if truthy v then
            (case toString_call v of
               Inl err \<Rightarrow> Inl err
             | Inr s \<Rightarrow>
                 if trim s \<noteq> [] then
                   (case ToString_opt v of
                      Inl err \<Rightarrow> Inl err
                    | Inr t \<Rightarrow>
                        pushLines mapping parsed keys
                          (lines @ [mappingText mapping key @ lit '': '' @ t]))
                 else pushLines mapping parsed keys lines)
          else pushLines mapping parsed keys lines)"

definition userMessage :: "(jsstring \<times> jsstring) list \<Rightarrow> json \<Rightarrow> error + jsstring" where
  "userMessage mapping parsed =
     (case pushLines mapping parsed (Object_keys mapping) [] of
        Inl err \<Rightarrow> Inl err
      | Inr lines \<Rightarrow> Inr (join lines (lit ''\<newline>'')))"

section \<open>The Worker: \<open>src/worker/index.js\<close>\<close>

text \<open>
  Each handler is the source's function, its local constants (\<open>mapping\<close>,
  \<open>systemPrompt\<close>, \<open>payload\<close>) as definitions of what they depend on. A handler returns its
  response together with the calls of \<open>fetch\<close> it made.
\<close>

definition worker_mapping :: "(jsstring \<times> jsstring) list" where
  "worker_mapping =
     [(lit ''name'', lit ''Name''),
      (lit ''roast'', lit ''Roast profile''),
      (lit ''origin'', lit ''Origin''),
      (lit ''process'', lit ''Processing method''),
      (lit ''varietal'', lit ''Varietal''),
      (lit ''masl'', lit ''MASL''),
      (lit ''roastDate'', lit ''Roast date''),
      (lit ''brewProfile'', lit ''Brew profile'')]"

definition worker_systemPrompt :: jsstring where
  "worker_systemPrompt =
     lit ''You are AidGen, a recipe generator for the Fellow Aiden coffee machine.\<newline>'' @
     lit ''Your task is to generate precise coffee brewing recipes based on user inputs.\<newline>\<newline>'' @
     lit ''The user will provide some or all of the following fields: Name, Roast profile, Origin, Processing method, Varietal, MASL, Roast date, Brew profile.\<newline>'' @
     lit ''If any fields are blank, ignore them.\<newline>\<newline>'' @
     lit ''Output as an HTML block containing ONLY tables. Each table must be dark mode styled and readable when injected directly into the page.\<newline>\<newline>'' @
     lit ''Tables Required:\<newline>'' @
     lit ''1. Aiden Recipe Table (Temperature, Coffee-to-Water Ratio, Bloom Ratio, Bloom Time, Bloom Temperature).\<newline>'' @
     lit ''2. Single Serve Recipe Table (Pulse #, Pulse Temp, Time Until Next Pulse).\<newline>'' @
     lit ''3. Batch Recipe Table (Pulse #, Pulse Temp, Time Until Next Pulse).\<newline>\<newline>'' @
     lit ''Rules:\<newline>'' @
     lit ''- All values must fall within specified ranges.\<newline>'' @
     lit ''- Be precise & realistic for the Fellow Aiden brewer.\<newline>'' @
     lit ''- Do not output text outside of tables.''"

text \<open>\<open>payload\<close>, for the user message built.\<close>

definition worker_payload :: "jsstring \<Rightarrow> json" where
  "worker_payload userText =
     JObj [(lit ''model'', JStr (lit ''gpt-3.5-turbo'')),
           (lit ''messages'',
            JArr [JObj [(lit ''role'', JStr (lit ''system'')), (lit ''content'', JStr worker_systemPrompt)],
                  JObj [(lit ''role'', JStr (lit ''user'')), (lit ''content'', JStr userText)]]),
           (lit ''temperature'', JNum (lit ''0.5'')),
           (lit ''max_tokens'', JNum (lit ''800''))]"

text \<open>The arguments of the call of \<open>fetch\<close>.\<close>

definition worker_call :: "jsstring \<Rightarrow> env \<Rightarrow> outbound" where
  "worker_call userText bindings =
     \<lparr>fetch_url = lit ''https://api.openai.com/v1/chat/completions'',
      fetch_method = lit ''POST'',
      fetch_headers =
        [(lit ''Content-Type'', lit ''application/json''),
         (lit ''Authorization'', lit ''Bearer '' @ bindingText (OPENAI_API_KEY bindings))],
      fetch_body = JSON_stringify (worker_payload userText)\<rparr>"

text \<open>What follows \<open>await fetch(...)\<close>: the upstream's answer turned into the response.\<close>

definition worker_translate :: "openaiResponse \<Rightarrow> error + response" where
  "worker_translate openaiRes =
     (if \<not> openai_ok openaiRes then
        (case openai_text openaiRes of
           Inl rejected \<Rightarrow> Inl (caught rejected)
         | Inr errorText \<Rightarrow>
             Inr \<lparr>status = 500,
                  headers = [(lit ''Content-Type'', lit ''application/json'')],
                  body = JSON_stringify
                    (JObj [(lit ''error'', JStr (lit ''OpenAI API error'')),
                           (lit ''details'', JStr errorText)])\<rparr>)
      else
        (case openai_json openaiRes of
           Inl rejected \<Rightarrow> Inl (caught rejected)
         | Inr result \<Rightarrow>
             (case getProp result (lit ''choices'') of
                Inl err \<Rightarrow> Inl err
              | Inr choices \<Rightarrow>
                  let content =
                        orEmpty (optProp (optProp (optIndex0 choices) (lit ''message'')) (lit ''content''))
                  in Inr \<lparr>status = 200,
                          headers = [(lit ''Content-Type'', lit ''application/json'')],
                          body = JSON_stringify (JObj [(lit ''html'', content)])\<rparr>)))"

text \<open>
  The body of \<open>try\<close>: the response it returns or the exception it throws, and the calls
  of \<open>fetch\<close> made on the way.
\<close>

definition worker_try :: "upstream \<Rightarrow> request \<Rightarrow> env \<Rightarrow> (error + response) \<times> outbound list" where
  "worker_try fetch req bindings =
     (case request_json req of
        Inl rejected \<Rightarrow> (Inl (caught rejected), [])
      | Inr parsed \<Rightarrow>
          (case userMessage worker_mapping parsed of
             Inl err \<Rightarrow> (Inl err, [])
           | Inr userText \<Rightarrow>
               (case fetch (worker_call userText bindings) of
                  Inl rejected \<Rightarrow> (Inl (caught rejected), [worker_call userText bindings])
                | Inr openaiRes \<Rightarrow> (worker_translate openaiRes, [worker_call userText bindings]))))"

definition worker_fetch :: "upstream \<Rightarrow> request \<Rightarrow> env \<Rightarrow> response \<times> outbound list" where
  "worker_fetch fetch req bindings =
     (if method req \<noteq> lit ''POST'' then
        (\<lparr>status = 405,
          headers = [(lit ''Content-Type'', lit ''application/json'')],
          body = JSON_stringify (JObj [(lit ''error'', JStr (lit ''Method Not Allowed''))])\<rparr>,
         [])
      else
        (case worker_try fetch req bindings of
           (Inl err, calls) \<Rightarrow>
             (\<lparr>status = 400,
               headers = [(lit ''Content-Type'', lit ''application/json'')],
               body = JSON_stringify
                 (JObj [(lit ''error'', JStr (lit ''Invalid request'')),
                        (lit ''message'', JStr (message err))])\<rparr>,
              calls)
         | (Inr res, calls) \<Rightarrow> (res, calls)))"

section \<open>The Pages functions\<close>

subsection \<open>\<open>handlePost\<close> and \<open>onRequest\<close>\<close>

definition handlePost_mapping :: "(jsstring \<times> jsstring) list" where
  "handlePost_mapping =
     [(lit ''name'', lit ''Name''),
      (lit ''roast'', lit ''Roast profile''),
      (lit ''origin'', lit ''Origin''),
      (lit ''process'', lit ''Processing method''),
      (lit ''varietal'', lit ''Varietal''),
      (lit ''masl'', lit ''MASL''),
      (lit ''roastDate'', lit ''Roast date''),
      (lit ''brewProfile'', lit ''Brew profile'')]"

definition handlePost_systemPrompt :: jsstring where
  "handlePost_systemPrompt =
     lit ''You are AidGen, a recipe generator for the Fellow Aiden coffee machine.\<newline>'' @
     lit ''Your task is to generate precise coffee brewing recipes based on user inputs.\<newline>\<newline>'' @
     lit ''The user will provide some or all of the following fields: Name, Roast profile, Origin, Processing method, Varietal, MASL, Roast date, Brew profile.\<newline>'' @
     lit ''If any fields are blank, ignore them.\<newline>\<newline>'' @
     lit ''Output as an HTML block containing ONLY tables. Each table must be dark mode styled and readable when injected directly into the page.\<newline>\<newline>'' @
     lit ''Tables Required:\<newline>'' @
     lit ''1. Aiden Recipe Table (Temperature, Coffee-to-Water Ratio, Bloom Ratio, Bloom Time, Bloom Temperature).\<newline>'' @
     lit ''2. Single Serve Recipe Table (Pulse #, Pulse Temp, Time Until Next Pulse).\<newline>'' @
     lit ''3. Batch Recipe Table (Pulse #, Pulse Temp, Time Until Next Pulse).\<newline>\<newline>'' @
     lit ''Rules:\<newline>'' @
     lit ''- All values must fall within specified ranges.\<newline>'' @
     lit ''- Be precise & realistic for the Fellow Aiden brewer.\<newline>'' @
     lit ''- Do not output text outside of tables.''"

text \<open>\<open>payload\<close>, for the user message built.\<close>

definition handlePost_payload :: "jsstring \<Rightarrow> json" where
  "handlePost_payload userText =
     JObj [(lit ''model'', JStr (lit ''gpt-3.5-turbo'')),
           (lit ''messages'',
            JArr [JObj [(lit ''role'', JStr (lit ''system'')), (lit ''content'', JStr handlePost_systemPrompt)],
                  JObj [(lit ''role'', JStr (lit ''user'')), (lit ''content'', JStr userText)]]),
           (lit ''temperature'', JNum (lit ''0.5'')),
           (lit ''max_tokens'', JNum (lit ''800''))]"

text \<open>The arguments of the call of \<open>fetch\<close>.\<close>

definition handlePost_call :: "jsstring \<Rightarrow> env \<Rightarrow> outbound" where
  "handlePost_call userText bindings =
     \<lparr>fetch_url = lit ''https://api.openai.com/v1/chat/completions'',
      fetch_method = lit ''POST'',
      fetch_headers =
        [(lit ''Content-Type'', lit ''application/json''),
         (lit ''Authorization'', lit ''Bearer '' @ bindingText (OPENAI_API_KEY bindings))],
      fetch_body = JSON_stringify (handlePost_payload userText)\<rparr>"

text \<open>What follows \<open>await fetch(...)\<close>: the upstream's answer turned into the response.\<close>

definition handlePost_translate :: "openaiResponse \<Rightarrow> error + response" where
  "handlePost_translate openaiRes =
     (if \<not> openai_ok openaiRes then
        (case openai_text openaiRes of
           Inl rejected \<Rightarrow> Inl (caught rejected)
         | Inr errorText \<Rightarrow>
             Inr \<lparr>status = 500,
                  headers = [(lit ''Content-Type'', lit ''application/json'')],
                  body = JSON_stringify
                    (JObj [(lit ''error'', JStr (lit ''OpenAI API error'')),
                           (lit ''details'', JStr errorText)])\<rparr>)
      else
        (case openai_json openaiRes of
           Inl rejected \<Rightarrow> Inl (caught rejected)
         | Inr result \<Rightarrow>
             (case getProp result (lit ''choices'') of
                Inl err \<Rightarrow> Inl err
              | Inr choices \<Rightarrow>
                  let content =
                        orEmpty (optProp (optProp (optIndex0 choices) (lit ''message'')) (lit ''content''))
                  in Inr \<lparr>status = 200,
                          headers = [(lit ''Content-Type'', lit ''application/json'')],
                          body = JSON_stringify (JObj [(lit ''html'', content)])\<rparr>)))"

text \<open>
  The body of \<open>try\<close>: the response it returns or the exception it throws, and the calls
  of \<open>fetch\<close> made on the way.
\<close>

definition handlePost_try :: "upstream \<Rightarrow> request \<Rightarrow> env \<Rightarrow> (error + response) \<times> outbound list" where
  "handlePost_try fetch req bindings =
     (case request_json req of
        Inl rejected \<Rightarrow> (Inl (caught rejected), [])
      | Inr parsed \<Rightarrow>
          (case userMessage handlePost_mapping parsed of
             Inl err \<Rightarrow> (Inl err, [])
           | Inr userText \<Rightarrow>
               (case fetch (handlePost_call userText bindings) of
                  Inl rejected \<Rightarrow> (Inl (caught rejected), [handlePost_call userText bindings])
                | Inr openaiRes \<Rightarrow> (handlePost_translate openaiRes, [handlePost_call userText bindings]))))"

definition handlePost :: "upstream \<Rightarrow> pagesContext \<Rightarrow> response \<times> outbound list" where
  "handlePost fetch context =
     (case handlePost_try fetch (request context) (env context) of
        (Inl err, calls) \<Rightarrow>
          (\<lparr>status = 400,
            headers = [(lit ''Content-Type'', lit ''application/json'')],
            body = JSON_stringify
              (JObj [(lit ''error'', JStr (lit ''Invalid request'')),
                     (lit ''message'', JStr (message err))])\<rparr>,
           calls)
      | (Inr res, calls) \<Rightarrow> (res, calls))"

definition onRequest :: "upstream \<Rightarrow> pagesContext \<Rightarrow> response \<times> outbound list" where
  "onRequest fetch context =
     (if method (request context) = lit ''POST'' then handlePost fetch context
      else
        (\<lparr>status = 405,
          headers = [(lit ''Content-Type'', lit ''application/json'')],
          body = JSON_stringify (JObj [(lit ''error'', JStr (lit ''Method Not Allowed''))])\<rparr>,
         []))"

subsection \<open>\<open>onRequestPost\<close>\<close>

definition onRequestPost_mapping :: "(jsstring \<times> jsstring) list" where
  "onRequestPost_mapping =
     [(lit ''name'', lit ''Name''),
      (lit ''roast'', lit ''Roast profile''),
      (lit ''origin'', lit ''Origin''),
      (lit ''process'', lit ''Processing method''),
      (lit ''varietal'', lit ''Varietal''),
      (lit ''masl'', lit ''MASL''),
      (lit ''roastDate'', lit ''Roast date''),
      (lit ''brewProfile'', lit ''Brew profile'')]"

definition onRequestPost_systemPrompt :: jsstring where
  "onRequestPost_systemPrompt =
     lit ''You are AidGen, a recipe generator for the Fellow Aiden coffee machine.\<newline>'' @
     lit ''Your task is to generate precise coffee brewing recipes based on user inputs.\<newline>\<newline>'' @
     lit ''The user will provide some or all of the following fields: Name, Roast profile, Origin, Processing method, Varietal, MASL, Roast date, Brew profile.\<newline>'' @
     lit ''If any fields are blank, ignore them.\<newline>\<newline>'' @
     lit ''Output as an HTML block containing ONLY tables. Each table must be dark mode styled and readable when injected directly into the page.\<newline>\<newline>'' @
     lit ''Tables Required:\<newline>'' @
     lit ''1. Aiden Recipe Table (Temperature, Coffee-to-Water Ratio, Bloom Ratio, Bloom Time, Bloom Temperature).\<newline>'' @
     lit ''2. Single Serve Recipe Table (Pulse #, Pulse Temp, Time Until Next Pulse).\<newline>'' @
     lit ''3. Batch Recipe Table (Pulse #, Pulse Temp, Time Until Next Pulse).\<newline>\<newline>'' @
     lit ''Rules:\<newline>'' @
     lit ''- All values must fall within specified ranges.\<newline>'' @
     lit ''- Be precise & realistic for the Fellow Aiden brewer.\<newline>'' @
     lit ''- Do not output text outside of tables.''"

text \<open>\<open>payload\<close>, for the user message built.\<close>

definition onRequestPost_payload :: "jsstring \<Rightarrow> json" where
  "onRequestPost_payload userText =
     JObj [(lit ''model'', JStr (lit ''gpt-3.5-turbo'')),
           (lit ''messages'',
            JArr [JObj [(lit ''role'', JStr (lit ''system'')), (lit ''content'', JStr onRequestPost_systemPrompt)],
                  JObj [(lit ''role'', JStr (lit ''user'')), (lit ''content'', JStr userText)]]),
           (lit ''temperature'', JNum (lit ''0.5'')),
           (lit ''max_tokens'', JNum (lit ''800''))]"

text \<open>The arguments of the call of \<open>fetch\<close>.\<close>

definition onRequestPost_call :: "jsstring \<Rightarrow> env \<Rightarrow> outbound" where
  "onRequestPost_call userText bindings =
     \<lparr>fetch_url = lit ''https://api.openai.com/v1/chat/completions'',
      fetch_method = lit ''POST'',
      fetch_headers =
        [(lit ''Content-Type'', lit ''application/json''),
         (lit ''Authorization'', lit ''Bearer '' @ bindingText (OPENAI_API_KEY bindings))],
      fetch_body = JSON_stringify (onRequestPost_payload userText)\<rparr>"

text \<open>What follows \<open>await fetch(...)\<close>: the upstream's answer turned into the response.\<close>

definition onRequestPost_translate :: "openaiResponse \<Rightarrow> error + response" where
  "onRequestPost_translate openaiRes =
     (if \<not> openai_ok openaiRes then
        (case openai_text openaiRes of
           Inl rejected \<Rightarrow> Inl (caught rejected)
         | Inr errorText \<Rightarrow>
             Inr \<lparr>status = 500,
                  headers = [(lit ''Content-Type'', lit ''application/json'')],
                  body = JSON_stringify
                    (JObj [(lit ''error'', JStr (lit ''OpenAI API error'')),
                           (lit ''details'', JStr errorText)])\<rparr>)
      else
        (case openai_json openaiRes of
           Inl rejected \<Rightarrow> Inl (caught rejected)
         | Inr result \<Rightarrow>
             (case getProp result (lit ''choices'') of
                Inl err \<Rightarrow> Inl err
              | Inr choices \<Rightarrow>
                  let content =
                        orEmpty (optProp (optProp (optIndex0 choices) (lit ''message'')) (lit ''content''))
                  in Inr \<lparr>status = 200,
                          headers = [(lit ''Content-Type'', lit ''application/json'')],
                          body = JSON_stringify (JObj [(lit ''html'', content)])\<rparr>)))"

text \<open>
  The body of \<open>try\<close>: the response it returns or the exception it throws, and the calls
  of \<open>fetch\<close> made on the way.
\<close>

definition onRequestPost_try :: "upstream \<Rightarrow> request \<Rightarrow> env \<Rightarrow> (error + response) \<times> outbound list" where
  "onRequestPost_try fetch req bindings =
     (case request_json req of
        Inl rejected \<Rightarrow> (Inl (caught rejected), [])
      | Inr parsed \<Rightarrow>
          (case userMessage onRequestPost_mapping parsed of
             Inl err \<Rightarrow> (Inl err, [])
           | Inr userText \<Rightarrow>
               (case fetch (onRequestPost_call userText bindings) of
                  Inl rejected \<Rightarrow> (Inl (caught rejected), [onRequestPost_call userText bindings])
                | Inr openaiRes \<Rightarrow> (onRequestPost_translate openaiRes, [onRequestPost_call userText bindings]))))"

definition onRequestPost :: "upstream \<Rightarrow> pagesContext \<Rightarrow> response \<times> outbound list" where
  "onRequestPost fetch context =
     (case onRequestPost_try fetch (request context) (env context) of
        (Inl err, calls) \<Rightarrow>
          (\<lparr>status = 400,
            headers = [(lit ''Content-Type'', lit ''application/json'')],
            body = JSON_stringify
              (JObj [(lit ''error'', JStr (lit ''Invalid request'')),
                     (lit ''message'', JStr (message err))])\<rparr>,
           calls)
      | (Inr res, calls) \<Rightarrow> (res, calls))"

section \<open>Notions the properties are stated with\<close>

text \<open>
  The entry points the platforms call, on a request and the environment bindings: the
  Worker's \<open>fetch\<close>, and the Pages functions \<open>onRequest\<close> and \<open>onRequestPost\<close> on the context
  holding both.
\<close>

definition entryPoints :: "(upstream \<Rightarrow> request \<Rightarrow> env \<Rightarrow> response \<times> outbound list) set" where
  "entryPoints =
     {worker_fetch,
      (\<lambda>fetch req bindings. onRequest fetch \<lparr>request = req, env = bindings\<rparr>),
      (\<lambda>fetch req bindings. onRequestPost fetch \<lparr>request = req, env = bindings\<rparr>)}"

text \<open>
  The response the \<open>catch\<close> block of each handler builds from the exception caught.
\<close>

definition invalidRequest :: "error \<Rightarrow> response" where
  "invalidRequest err =
     \<lparr>status = 400,
      headers = [(lit ''Content-Type'', lit ''application/json'')],
      body = JSON_stringify
        (JObj [(lit ''error'', JStr (lit ''Invalid request'')), (lit ''message'', JStr (message err))])\<rparr>"

text \<open>
  The three \<open>try\<close>/\<open>catch\<close> blocks in one form: what each handler does once the method has
  been accepted. It is proved equal to each of them below.
\<close>

definition relay :: "upstream \<Rightarrow> request \<Rightarrow> env \<Rightarrow> response \<times> outbound list" where
  "relay fetch req bindings =
     (case request_json req of
        Inl rejected \<Rightarrow> (invalidRequest (caught rejected), [])
      | Inr parsed \<Rightarrow>
          (case userMessage worker_mapping parsed of
             Inl err \<Rightarrow> (invalidRequest err, [])
           | Inr userText \<Rightarrow>
               (case fetch (worker_call userText bindings) of
                  Inl rejected \<Rightarrow>
                    (invalidRequest (caught rejected), [worker_call userText bindings])
                | Inr openaiRes \<Rightarrow>
                    (case worker_translate openaiRes of
                       Inl err \<Rightarrow> (invalidRequest err, [worker_call userText bindings])
                     | Inr res \<Rightarrow> (res, [worker_call userText bindings])))))"

text \<open>
  The response to a method other than \<open>POST\<close>, its body written out.
\<close>

definition methodNotAllowed :: response where
  \<open>methodNotAllowed =
     \<lparr>status = 405, headers = [(lit ''Content-Type'', lit ''application/json'')],
      body = lit ''{"error":"Method Not Allowed"}''\<rparr>\<close>

text \<open>
  The table of recognized keys and their labels, in the order the specification fixes.
\<close>

definition recognizedKeys :: "(jsstring \<times> jsstring) list" where
  "recognizedKeys =
     [(lit ''name'', lit ''Name''),
      (lit ''roast'', lit ''Roast profile''),
      (lit ''origin'', lit ''Origin''),
      (lit ''process'', lit ''Processing method''),
      (lit ''varietal'', lit ''Varietal''),
      (lit ''masl'', lit ''MASL''),
      (lit ''roastDate'', lit ''Roast date''),
      (lit ''brewProfile'', lit ''Brew profile'')]"

text \<open>
  The presence filter of the loop: the value is truthy and its string is not empty once
  trimmed.
\<close>

definition presenceFilter :: "json option \<Rightarrow> bool" where
  "presenceFilter v =
     (truthy v \<and> (case toString_call v of Inl err \<Rightarrow> False | Inr s \<Rightarrow> trim s \<noteq> []))"

text \<open>
  The text of a value in its line.
\<close>

definition valueText :: "json option \<Rightarrow> jsstring" where
  "valueText v = (case ToString_opt v of Inl err \<Rightarrow> [] | Inr t \<Rightarrow> t)"

text \<open>
  The values whose conversion to a string throws: those that are, or hold in nested
  arrays, an object with an own property \<open>toString\<close>.
\<close>

definition conversionThrows :: "json option \<Rightarrow> bool" where
  "conversionThrows v = (truthy v \<and> (case toString_call v of Inl err \<Rightarrow> True | Inr s \<Rightarrow> False))"

text \<open>
  The lines \<open>Label: value\<close> of the keys of a table whose values pass the presence filter, in
  the order of the table.
\<close>

definition renderedLines :: "(jsstring \<Rightarrow> json option) \<Rightarrow> (jsstring \<times> jsstring) list \<Rightarrow> jsstring list" where
  "renderedLines props table =
     map (\<lambda>(key, label). label @ lit '': '' @ valueText (props key))
       (filter (\<lambda>(key, label). presenceFilter (props key)) table)"

text \<open>
  The user message as the specification words it: the newline-join of those lines over the
  recognized keys.
\<close>

definition specUserMessage :: "(jsstring \<Rightarrow> json option) \<Rightarrow> jsstring" where
  "specUserMessage props = join (renderedLines props recognizedKeys) (lit ''\<newline>'')"

text \<open>
  The properties of a parsed body that property access can find under the names read
  here: the own properties of an object, and none for any other value.
\<close>

fun ownFields :: "json \<Rightarrow> jsstring \<Rightarrow> json option" where
  "ownFields (JObj kvs) = map_of kvs"
| "ownFields v = (\<lambda>k. None)"

text \<open>
  A value that is absent, \<open>null\<close>, or whose string is only white space: empty once
  trimmed.
\<close>

definition blankValue :: "json option \<Rightarrow> bool" where
  "blankValue v =
     (v = None \<or> v = Some JNull \<or> (case ToString_opt v of Inl err \<Rightarrow> False | Inr s \<Rightarrow> trim s = []))"

text \<open>
  The values the loop leaves out: the blank ones, and \<open>false\<close> and \<open>0\<close>, which are falsy.
\<close>

definition excludedValue :: "json option \<Rightarrow> bool" where
  "excludedValue v = (blankValue v \<or> v = Some (JBool False) \<or> v = Some (JNum (lit ''0'')))"

text \<open>
  Example inputs: requests (with a body, with a body that does not parse, with the body
  \<open>null\<close>), the environment, and upstreams that fail, succeed without \<open>choices\<close>, answer
  \<open>null\<close>, answer a \<open>content\<close> that is \<open>false\<close> or a table, or cannot be reached.
\<close>

definition examplePost :: request where
  "examplePost =
     \<lparr>method = lit ''POST'',
      request_json = Inr (JObj [(lit ''name'', JStr (lit ''El Salvador Bourbon'')),
                                (lit ''roast'', JStr (lit ''Light''))])\<rparr>"

definition exampleEnv :: env where
  "exampleEnv = \<lparr>OPENAI_API_KEY = Some (lit ''sk-test'')\<rparr>"

definition rateLimited :: upstream where
  "rateLimited call =
     Inr \<lparr>openai_ok = False, openai_text = Inr (lit ''rate limited''),
          openai_json = Inl (Rejection (SyntaxError (lit ''Unexpected token r in JSON at position 0'')))\<rparr>"

definition noChoices :: upstream where
  "noChoices call =
     Inr \<lparr>openai_ok = True, openai_text = Inr (lit ''{}''), openai_json = Inr (JObj [])\<rparr>"

definition nullResult :: upstream where
  "nullResult call =
     Inr \<lparr>openai_ok = True, openai_text = Inr (lit ''null''), openai_json = Inr JNull\<rparr>"

definition falseContent :: upstream where
  "falseContent call =
     Inr \<lparr>openai_ok = True, openai_text = Inr [],
          openai_json = Inr (JObj [(lit ''choices'',
            JArr [JObj [(lit ''message'', JObj [(lit ''content'', JBool False)])]])])\<rparr>"

definition tableContent :: upstream where
  "tableContent call =
     Inr \<lparr>openai_ok = True, openai_text = Inr [],
          openai_json = Inr (JObj [(lit ''choices'',
            JArr [JObj [(lit ''message'', JObj [(lit ''content'', JStr (lit ''<table></table>''))])]])])\<rparr>"



definition getRequest :: request where
  "getRequest =
     \<lparr>method = lit ''GET'',
      request_json = Inl (Rejection (SyntaxError (lit ''Unexpected end of JSON input'')))\<rparr>"

definition unreachable :: upstream where
  "unreachable call = Inl (Rejection (TypeError (lit ''fetch failed'')))"

text \<open>
  The routing of the Pages platform over the functions the file exports: a request whose
  method has its own export, here \<open>onRequestPost\<close> for \<open>POST\<close>, goes to that function, and every
  other request to \<open>onRequest\<close>.
\<close>

definition pagesRoute :: "upstream \<Rightarrow> pagesContext \<Rightarrow> response \<times> outbound list" where
  "pagesRoute fetch context =
     (if method (request context) = lit ''POST'' then onRequestPost fetch context
      else onRequest fetch context)"

section \<open>Auxiliary facts\<close>

lemma handlePost_mapping_eq: "handlePost_mapping = worker_mapping"
  unfolding handlePost_mapping_def worker_mapping_def by (rule refl)

lemma onRequestPost_mapping_eq: "onRequestPost_mapping = worker_mapping"
  unfolding onRequestPost_mapping_def worker_mapping_def by (rule refl)

lemma handlePost_systemPrompt_eq: "handlePost_systemPrompt = worker_systemPrompt"
  unfolding handlePost_systemPrompt_def worker_systemPrompt_def by (rule refl)

lemma onRequestPost_systemPrompt_eq: "onRequestPost_systemPrompt = worker_systemPrompt"
  unfolding onRequestPost_systemPrompt_def worker_systemPrompt_def by (rule refl)

lemma handlePost_payload_eq: "handlePost_payload = worker_payload"
  unfolding handlePost_payload_def worker_payload_def handlePost_systemPrompt_eq by (rule refl)

lemma onRequestPost_payload_eq: "onRequestPost_payload = worker_payload"
  unfolding onRequestPost_payload_def worker_payload_def onRequestPost_systemPrompt_eq by (rule refl)

lemma handlePost_call_eq: "handlePost_call = worker_call"
  unfolding handlePost_call_def worker_call_def handlePost_payload_eq by (rule refl)

lemma onRequestPost_call_eq: "onRequestPost_call = worker_call"
  unfolding onRequestPost_call_def worker_call_def onRequestPost_payload_eq by (rule refl)

lemma handlePost_translate_eq: "handlePost_translate = worker_translate"
  unfolding handlePost_translate_def worker_translate_def by (rule refl)

lemma onRequestPost_translate_eq: "onRequestPost_translate = worker_translate"
  unfolding onRequestPost_translate_def worker_translate_def by (rule refl)

lemma handlePost_try_eq: "handlePost_try = worker_try"
  unfolding handlePost_try_def worker_try_def handlePost_mapping_eq handlePost_call_eq
    handlePost_translate_eq
  by (rule refl)

lemma onRequestPost_try_eq: "onRequestPost_try = worker_try"
  unfolding onRequestPost_try_def worker_try_def onRequestPost_mapping_eq onRequestPost_call_eq
    onRequestPost_translate_eq
  by (rule refl)

lemma catch_worker_try:
  "(case worker_try fetch req bindings of
      (Inl err, calls) \<Rightarrow>
        (\<lparr>status = 400,
          headers = [(lit ''Content-Type'', lit ''application/json'')],
          body = JSON_stringify
            (JObj [(lit ''error'', JStr (lit ''Invalid request'')),
                   (lit ''message'', JStr (message err))])\<rparr>,
         calls)
    | (Inr res, calls) \<Rightarrow> (res, calls)) = relay fetch req bindings"
  unfolding worker_try_def relay_def invalidRequest_def
  by (simp split: sum.splits)

lemma handlePost_relay: "handlePost fetch context = relay fetch (request context) (env context)"
  unfolding handlePost_def handlePost_try_eq catch_worker_try by (rule refl)

lemma onRequestPost_relay: "onRequestPost fetch context = relay fetch (request context) (env context)"
  unfolding onRequestPost_def onRequestPost_try_eq catch_worker_try by (rule refl)

lemma stringify_405:
  \<open>JSON_stringify (JObj [(lit ''error'', JStr (lit ''Method Not Allowed''))]) =
   lit ''{"error":"Method Not Allowed"}''\<close>
  by code_simp

lemma worker_fetch_relay:
  "worker_fetch fetch req bindings =
     (if method req = lit ''POST'' then relay fetch req bindings else (methodNotAllowed, []))"
  unfolding worker_fetch_def catch_worker_try stringify_405 methodNotAllowed_def by simp

lemma onRequest_relay:
  "onRequest fetch context =
     (if method (request context) = lit ''POST'' then relay fetch (request context) (env context)
      else (methodNotAllowed, []))"
  unfolding onRequest_def handlePost_relay stringify_405 methodNotAllowed_def by simp

lemma entryPoints_relay:
  "handler \<in> entryPoints \<Longrightarrow> method req = lit ''POST'' \<Longrightarrow> handler fetch req bindings = relay fetch req bindings"
  unfolding entryPoints_def by (auto simp: worker_fetch_relay onRequest_relay onRequestPost_relay)

lemma getProp_ownFields: "parsed \<noteq> JNull \<Longrightarrow> getProp parsed k = Inr (ownFields parsed k)"
  by (cases parsed) simp_all

lemma toString_call_ToString:
  "truthy v \<Longrightarrow> toString_call v = Inr s \<Longrightarrow> ToString_opt v = Inr s"
proof (cases v)
  case None
  then show "truthy v \<Longrightarrow> toString_call v = Inr s \<Longrightarrow> ToString_opt v = Inr s" by simp
next
  case (Some x)
  then show "truthy v \<Longrightarrow> toString_call v = Inr s \<Longrightarrow> ToString_opt v = Inr s"
    by (cases x) (auto split: if_splits)
qed

lemma pushLines_total:
  assumes "parsed \<noteq> JNull"
    and "\<forall>key \<in> set keys. \<not> conversionThrows (ownFields parsed key)"
  shows "pushLines mapping parsed keys lines =
     Inr (lines @ map (\<lambda>key. mappingText mapping key @ lit '': '' @ valueText (ownFields parsed key))
                    (filter (\<lambda>key. presenceFilter (ownFields parsed key)) keys))"
  using assms(2)
proof (induction keys arbitrary: lines)
  case Nil
  then show ?case by simp
next
  case (Cons key keys)
  have nothrow: "\<not> conversionThrows (ownFields parsed key)" using Cons.prems by simp
  have rest: "\<forall>key \<in> set keys. \<not> conversionThrows (ownFields parsed key)" using Cons.prems by simp
  note IH = Cons.IH [OF rest]
  show ?case
  proof (cases "truthy (ownFields parsed key)")
    case False
    then show ?thesis
      by (simp add: getProp_ownFields [OF assms(1)] IH presenceFilter_def)
  next
    case True
    with nothrow obtain s where s: "toString_call (ownFields parsed key) = Inr s"
      by (auto simp: conversionThrows_def split: sum.splits)
    have t: "ToString_opt (ownFields parsed key) = Inr s"
      by (rule toString_call_ToString [OF True s])
    show ?thesis
      by (simp add: getProp_ownFields [OF assms(1)] IH presenceFilter_def True s t valueText_def)
  qed
qed

lemma pushLines_throws:
  assumes "parsed \<noteq> JNull"
  shows "pushLines mapping parsed keys lines = Inr ls \<Longrightarrow>
     \<forall>key \<in> set keys. \<not> conversionThrows (ownFields parsed key)"
proof (induction keys arbitrary: lines)
  case Nil
  then show ?case by simp
next
  case (Cons key keys)
  from Cons.prems obtain lines' where
    rest: "pushLines mapping parsed keys lines' = Inr ls"
    and here: "\<not> conversionThrows (ownFields parsed key)"
    by (auto simp: getProp_ownFields [OF assms] conversionThrows_def
        split: sum.splits if_splits)
  from Cons.IH [OF rest] here show ?case by simp
qed

lemma mappingText_table:
  "distinct (map fst mapping) \<Longrightarrow> set table \<subseteq> set mapping \<Longrightarrow>
   map (\<lambda>key. mappingText mapping key @ sep @ f key) (filter P (map fst table)) =
   map (\<lambda>(key, label). label @ sep @ f key) (filter (\<lambda>(key, label). P key) table)"
proof (induction table)
  case Nil
  then show ?case by simp
next
  case (Cons entry table)
  obtain key label where entry: "entry = (key, label)" by (cases entry)
  with Cons.prems have "map_of mapping key = Some label" by simp
  then have "mappingText mapping key = label" by (simp add: mappingText_def)
  with Cons entry show ?case by simp
qed

lemma worker_mapping_recognized: "worker_mapping = recognizedKeys"
  unfolding worker_mapping_def recognizedKeys_def by (rule refl)

lemma distinct_recognizedKeys: "distinct (map fst recognizedKeys)"
  by (simp add: recognizedKeys_def lit_def)

lemma userMessage_total:
  assumes "parsed \<noteq> JNull"
    and "\<forall>(key, label) \<in> set recognizedKeys. \<not> conversionThrows (ownFields parsed key)"
  shows "userMessage worker_mapping parsed = Inr (specUserMessage (ownFields parsed))"
proof -
  have "\<forall>key \<in> set (Object_keys worker_mapping). \<not> conversionThrows (ownFields parsed key)"
    using assms(2) by (auto simp: Object_keys_def worker_mapping_recognized)
  from pushLines_total [OF assms(1) this, of worker_mapping "[]"]
  show ?thesis
    unfolding userMessage_def specUserMessage_def renderedLines_def
    by (simp add: Object_keys_def worker_mapping_recognized
        mappingText_table [OF distinct_recognizedKeys subset_refl])
qed

lemma userMessage_success:
  assumes "parsed \<noteq> JNull" and "userMessage worker_mapping parsed = Inr msg"
  shows "msg = specUserMessage (ownFields parsed)"
proof -
  from assms(2) obtain ls where ls: "pushLines worker_mapping parsed (Object_keys worker_mapping) [] = Inr ls"
    by (auto simp: userMessage_def split: sum.splits)
  from pushLines_throws [OF assms(1) ls]
  have "\<forall>(key, label) \<in> set recognizedKeys. \<not> conversionThrows (ownFields parsed key)"
    by (auto simp: Object_keys_def worker_mapping_recognized)
  from userMessage_total [OF assms(1) this] assms(2) show ?thesis by simp
qed

lemma userMessage_null: "\<exists>err. userMessage mapping JNull = Inl err \<and> message err \<noteq> []" if "mapping \<noteq> []"
  using that by (cases mapping) (auto simp: userMessage_def Object_keys_def)

lemma pushLines_fields:
  "ownFields parsed = ownFields parsed' \<Longrightarrow> parsed \<noteq> JNull \<Longrightarrow> parsed' \<noteq> JNull \<Longrightarrow>
   pushLines mapping parsed keys lines = pushLines mapping parsed' keys lines"
  by (induction keys arbitrary: lines) (simp_all add: getProp_ownFields split: sum.splits)

lemma quote_error: \<open>QuoteJSONString (lit ''error'') = lit ''"error"''\<close> by code_simp


lemma quote_details: \<open>QuoteJSONString (lit ''details'') = lit ''"details"''\<close> by code_simp

lemma quote_html: \<open>QuoteJSONString (lit ''html'') = lit ''"html"''\<close> by code_simp


lemma quote_OpenAI_API_error: \<open>QuoteJSONString (lit ''OpenAI API error'') = lit ''"OpenAI API error"''\<close> by code_simp

lemma quote_rate_limited: \<open>QuoteJSONString (lit ''rate limited'') = lit ''"rate limited"''\<close> by code_simp

lemma quote_empty: \<open>QuoteJSONString [] = lit ''""''\<close> by code_simp


lemma stringify_upstream_error:
  \<open>JSON_stringify (JObj [(lit ''error'', JStr (lit ''OpenAI API error'')), (lit ''details'', JStr t)]) =
   lit ''{"error":"OpenAI API error","details":'' @ QuoteJSONString t @ lit ''}''\<close>
  by (simp add: quote_error quote_details quote_OpenAI_API_error) (simp add: lit_def)

lemma stringify_html:
  \<open>JSON_stringify (JObj [(lit ''html'', c)]) = lit ''{"html":'' @ JSON_stringify c @ lit ''}''\<close>
  by (simp add: quote_html) (simp add: lit_def)

lemma quote_model: \<open>QuoteJSONString (lit ''model'') = lit ''"model"''\<close> by code_simp

lemma quote_gpt: \<open>QuoteJSONString (lit ''gpt-3.5-turbo'') = lit ''"gpt-3.5-turbo"''\<close> by code_simp

lemma quote_messages: \<open>QuoteJSONString (lit ''messages'') = lit ''"messages"''\<close> by code_simp

lemma quote_role: \<open>QuoteJSONString (lit ''role'') = lit ''"role"''\<close> by code_simp

lemma quote_system: \<open>QuoteJSONString (lit ''system'') = lit ''"system"''\<close> by code_simp

lemma quote_user: \<open>QuoteJSONString (lit ''user'') = lit ''"user"''\<close> by code_simp

lemma quote_content: \<open>QuoteJSONString (lit ''content'') = lit ''"content"''\<close> by code_simp

lemma quote_temperature: \<open>QuoteJSONString (lit ''temperature'') = lit ''"temperature"''\<close> by code_simp

lemma quote_max_tokens: \<open>QuoteJSONString (lit ''max_tokens'') = lit ''"max_tokens"''\<close> by code_simp

lemma stringify_half: \<open>JSON_stringify (JNum (lit ''0.5'')) = lit ''0.5''\<close> by code_simp

lemma stringify_800: \<open>JSON_stringify (JNum (lit ''800'')) = lit ''800''\<close> by code_simp

lemma stringify_payload:
  \<open>JSON_stringify
     (JObj [(lit ''model'', JStr (lit ''gpt-3.5-turbo'')),
            (lit ''messages'',
             JArr [JObj [(lit ''role'', JStr (lit ''system'')), (lit ''content'', JStr sys)],
                   JObj [(lit ''role'', JStr (lit ''user'')), (lit ''content'', JStr usr)]]),
            (lit ''temperature'', JNum (lit ''0.5'')),
            (lit ''max_tokens'', JNum (lit ''800''))]) =
   lit ''{"model":"gpt-3.5-turbo","messages":[{"role":"system","content":'' @ QuoteJSONString sys @
   lit ''},{"role":"user","content":'' @ QuoteJSONString usr @
   lit ''}],"temperature":0.5,"max_tokens":800}''\<close>
  apply (simp only: JSON_stringify.simps list.map prod.case join.simps
      quote_model quote_gpt quote_messages quote_role quote_system quote_user quote_content
      quote_temperature quote_max_tokens stringify_half stringify_800)
  apply (simp add: lit_def)
  done

lemma example_userMessage:
  "userMessage worker_mapping
     (JObj [(lit ''name'', JStr (lit ''El Salvador Bourbon'')), (lit ''roast'', JStr (lit ''Light''))]) =
   Inr (lit ''Name: El Salvador Bourbon\<newline>Roast profile: Light'')"
  by code_simp

lemma mappings_eq:
  "mapping \<in> {worker_mapping, handlePost_mapping, onRequestPost_mapping} \<Longrightarrow> mapping = worker_mapping"
  by (auto simp: handlePost_mapping_eq onRequestPost_mapping_eq)

lemma userMessage_order:
  assumes "distinct (map fst kvs)" "distinct (map fst kvs')" "set kvs' = set kvs"
  shows "userMessage mapping (JObj kvs') = userMessage mapping (JObj kvs)"
proof -
  have "map_of kvs' = map_of kvs"
    using assms by (simp add: map_of_inject_set)
  then have "ownFields (JObj kvs') = ownFields (JObj kvs)" by simp
  from pushLines_fields [OF this] show ?thesis by (simp add: userMessage_def)
qed

lemma example_swapped:
  "userMessage worker_mapping
     (JObj [(lit ''roast'', JStr (lit ''Light'')), (lit ''name'', JStr (lit ''El Salvador Bourbon''))]) =
   Inr (lit ''Name: El Salvador Bourbon\<newline>Roast profile: Light'')"
  by code_simp

lemma example_nothrow:
  "\<forall>(key, label) \<in> set recognizedKeys. \<not> conversionThrows
      (map_of [(lit ''roast'', JStr (lit ''Light'')), (lit ''name'', JStr (lit ''El Salvador Bourbon''))] key)"
  by code_simp

lemma presence_excluded:
  assumes "\<not> conversionThrows v"
  shows "presenceFilter v = (\<not> excludedValue v)"
proof (cases "truthy v")
  case False
  then have "v = None \<or> v = Some JNull \<or> v = Some (JBool False) \<or> v = Some (JNum (lit ''0'')) \<or> v = Some (JStr [])"
  proof (cases v)
    case None
    then show ?thesis by simp
  next
    case (Some x)
    with False show ?thesis by (cases x) auto
  qed
  then have "excludedValue v"
    by (auto simp: excludedValue_def blankValue_def trim_def)
  with False show ?thesis by (simp add: presenceFilter_def)
next
  case True
  with assms obtain s where s: "toString_call v = Inr s"
    by (auto simp: conversionThrows_def split: sum.splits)
  have t: "ToString_opt v = Inr s" by (rule toString_call_ToString [OF True s])
  from True have "v \<noteq> None \<and> v \<noteq> Some JNull \<and> v \<noteq> Some (JBool False) \<and> v \<noteq> Some (JNum (lit ''0''))"
    by (cases v) auto
  then show ?thesis
    by (simp add: presenceFilter_def excludedValue_def blankValue_def True s t)
qed

lemma label_lines_differ:
  "(key, label) \<in> set recognizedKeys \<Longrightarrow> (key', label') \<in> set recognizedKeys \<Longrightarrow>
   label @ lit '': '' @ x = label' @ lit '': '' @ y \<Longrightarrow> key = key'"
  by (auto simp: recognizedKeys_def lit_def)

lemma entryPoints_cases:
  "handler \<in> entryPoints \<Longrightarrow>
   handler fetch req bindings = relay fetch req bindings \<or>
   handler fetch req bindings = (methodNotAllowed, [])"
  unfolding entryPoints_def
  by (auto simp: worker_fetch_relay onRequest_relay onRequestPost_relay)

lemma relay_call:
  assumes "call \<in> set (snd (relay fetch req bindings))"
  shows "\<exists>parsed userText. request_json req = Inr parsed
      \<and> userMessage worker_mapping parsed = Inr userText
      \<and> call = worker_call userText bindings
      \<and> relay fetch req bindings =
          (case fetch call of
             Inl rejected \<Rightarrow> invalidRequest (caught rejected)
           | Inr openaiRes \<Rightarrow>
               (case worker_translate openaiRes of Inl err \<Rightarrow> invalidRequest err | Inr res \<Rightarrow> res),
           [call])"
  using assms unfolding relay_def
  by (auto split: sum.splits)

lemma entryPoints_call:
  assumes "handler \<in> entryPoints" and "call \<in> set (snd (handler fetch req bindings))"
  shows "\<exists>parsed userText. request_json req = Inr parsed
      \<and> userMessage worker_mapping parsed = Inr userText
      \<and> call = worker_call userText bindings
      \<and> handler fetch req bindings =
          (case fetch call of
             Inl rejected \<Rightarrow> invalidRequest (caught rejected)
           | Inr openaiRes \<Rightarrow>
               (case worker_translate openaiRes of Inl err \<Rightarrow> invalidRequest err | Inr res \<Rightarrow> res),
           [call])"
proof -
  from entryPoints_cases [OF assms(1), of fetch req bindings] assms(2)
  have eq: "handler fetch req bindings = relay fetch req bindings" by auto
  with assms(2) have "call \<in> set (snd (relay fetch req bindings))" by simp
  from relay_call [OF this] show ?thesis unfolding eq .
qed

lemma example_relay:
  "relay fetch examplePost bindings =
     (case fetch (worker_call (lit ''Name: El Salvador Bourbon\<newline>Roast profile: Light'') bindings) of
        Inl rejected \<Rightarrow> invalidRequest (caught rejected)
      | Inr openaiRes \<Rightarrow>
          (case worker_translate openaiRes of Inl err \<Rightarrow> invalidRequest err | Inr res \<Rightarrow> res),
      [worker_call (lit ''Name: El Salvador Bourbon\<newline>Roast profile: Light'') bindings])"
  unfolding relay_def examplePost_def
  by (simp add: example_userMessage split: sum.splits)

lemma method_examplePost: "method examplePost = lit ''POST''"
  by (simp add: examplePost_def)

lemma worker_fetch_entryPoint: "worker_fetch \<in> entryPoints"
  by (simp add: entryPoints_def)

lemma onRequest_entryPoint:
  "(\<lambda>fetch req bindings. onRequest fetch \<lparr>request = req, env = bindings\<rparr>) \<in> entryPoints"
  by (simp add: entryPoints_def)

lemma onRequestPost_entryPoint:
  "(\<lambda>fetch req bindings. onRequestPost fetch \<lparr>request = req, env = bindings\<rparr>) \<in> entryPoints"
  by (simp add: entryPoints_def)

lemma worker_translate_headers:
  "worker_translate openaiRes = Inr res \<Longrightarrow> headers res = [(lit ''Content-Type'', lit ''application/json'')]"
  unfolding worker_translate_def Let_def
  by (auto split: sum.splits if_splits)

lemma relay_headers:
  "headers (fst (relay fetch req bindings)) = [(lit ''Content-Type'', lit ''application/json'')]"
  unfolding relay_def
  by (auto simp: invalidRequest_def split: sum.splits dest: worker_translate_headers)









lemma translate_null:
  "openai_ok openaiRes \<Longrightarrow> openai_json openaiRes = Inr JNull \<Longrightarrow>
   worker_translate openaiRes =
     Inl (TypeError (lit ''Cannot read properties of null (reading '' @ [0x27] @ lit ''choices'' @ [0x27] @ lit '')''))"
  by (simp add: worker_translate_def)







lemma translate_success:
  assumes "openai_ok openaiRes" and "openai_json openaiRes = Inr result" and "result \<noteq> JNull"
  shows \<open>worker_translate openaiRes =
     Inr \<lparr>status = 200, headers = [(lit ''Content-Type'', lit ''application/json'')],
          body = lit ''{"html":'' @
            JSON_stringify
              (orEmpty (optProp (optProp (optIndex0 (ownFields result (lit ''choices''))) (lit ''message''))
                 (lit ''content''))) @
            lit ''}''\<rparr>\<close>
  using assms
  by (simp add: worker_translate_def getProp_ownFields stringify_html del: JSON_stringify.simps)

lemma example_trace:
  "snd (worker_fetch fetch examplePost exampleEnv) =
     [worker_call (lit ''Name: El Salvador Bourbon\<newline>Roast profile: Light'') exampleEnv]"
  by (simp add: worker_fetch_relay method_examplePost example_relay)

lemma ToString_toString_call:
  "truthy v \<Longrightarrow> ToString_opt v = Inr s \<Longrightarrow> toString_call v = Inr s"
proof (cases v)
  case None
  then show "truthy v \<Longrightarrow> ToString_opt v = Inr s \<Longrightarrow> toString_call v = Inr s" by simp
next
  case (Some x)
  then show "truthy v \<Longrightarrow> ToString_opt v = Inr s \<Longrightarrow> toString_call v = Inr s"
    by (cases x) (auto split: if_splits)
qed

lemma blank_not_present:
  assumes "blankValue v"
  shows "\<not> presenceFilter v \<and> \<not> conversionThrows v"
proof (cases "truthy v")
  case False
  then show ?thesis by (simp add: presenceFilter_def conversionThrows_def)
next
  case True
  then have "v \<noteq> None \<and> v \<noteq> Some JNull" by (cases v) auto
  with assms obtain s where s: "ToString_opt v = Inr s" and t: "trim s = []"
    by (auto simp: blankValue_def split: sum.splits)
  from ToString_toString_call [OF True s] t show ?thesis
    by (simp add: presenceFilter_def conversionThrows_def)
qed

lemma userMessage_blank:
  assumes "parsed \<noteq> JNull"
    and "\<forall>(key, label) \<in> set recognizedKeys. blankValue (ownFields parsed key)"
  shows "userMessage worker_mapping parsed = Inr []"
proof -
  from assms(2) have a: "\<forall>(key, label) \<in> set recognizedKeys. \<not> conversionThrows (ownFields parsed key)"
    and b: "\<forall>(key, label) \<in> set recognizedKeys. \<not> presenceFilter (ownFields parsed key)"
    using blank_not_present by blast+
  from b have "filter (\<lambda>(key, label). presenceFilter (ownFields parsed key)) recognizedKeys = []"
    by (auto simp: filter_empty_conv)
  then have "specUserMessage (ownFields parsed) = []"
    by (simp add: specUserMessage_def renderedLines_def)
  with userMessage_total [OF assms(1) a] show ?thesis by simp
qed

section \<open>The properties\<close>

subsection \<open>C1\<close>

text \<open>
  C1. For every JSON object body, the user message constructed is the newline-join of
  the lines \<open>Label: value\<close> for exactly the recognized keys whose values pass the presence filter,
  in the fixed order \<open>name\<close>, \<open>roast\<close>, \<open>origin\<close>, \<open>process\<close>, \<open>varietal\<close>, \<open>masl\<close>, \<open>roastDate\<close>,
  \<open>brewProfile\<close> with the fixed labels, whatever the order of the keys in the input object. A
  message is constructed whenever no such value throws on conversion. For the body
  \<open>{ "name": "El Salvador Bourbon", "roast": "Light" }\<close> the message is
  \<open>Name: El Salvador Bourbon\nRoast profile: Light\<close>. This holds for the \<open>mapping\<close> of each of the
  three handlers.
\<close>

theorem user_message_fixed_order:
  assumes "mapping \<in> {worker_mapping, handlePost_mapping, onRequestPost_mapping}"
  shows "(userMessage mapping (JObj kvs) = Inr msg \<longrightarrow> msg = specUserMessage (map_of kvs))
    \<and> ((\<forall>(key, label) \<in> set recognizedKeys. \<not> conversionThrows (map_of kvs key)) \<longrightarrow>
         userMessage mapping (JObj kvs) = Inr (specUserMessage (map_of kvs)))
    \<and> (distinct (map fst kvs) \<and> distinct (map fst kvs') \<and> set kvs' = set kvs \<longrightarrow>
         userMessage mapping (JObj kvs') = userMessage mapping (JObj kvs))
    \<and> userMessage mapping
         (JObj [(lit ''name'', JStr (lit ''El Salvador Bourbon'')), (lit ''roast'', JStr (lit ''Light''))]) =
       Inr (lit ''Name: El Salvador Bourbon\<newline>Roast profile: Light'')"
proof -
  have m: "mapping = worker_mapping" by (rule mappings_eq [OF assms])
  have nn: "JObj kvs \<noteq> JNull" by simp
  have 1: "userMessage mapping (JObj kvs) = Inr msg \<longrightarrow> msg = specUserMessage (map_of kvs)"
    using userMessage_success [OF nn, of msg] by (simp add: m)
  have 2: "(\<forall>(key, label) \<in> set recognizedKeys. \<not> conversionThrows (map_of kvs key)) \<longrightarrow>
         userMessage mapping (JObj kvs) = Inr (specUserMessage (map_of kvs))"
    using userMessage_total [OF nn] by (simp add: m)
  have 3: "distinct (map fst kvs) \<and> distinct (map fst kvs') \<and> set kvs' = set kvs \<longrightarrow>
         userMessage mapping (JObj kvs') = userMessage mapping (JObj kvs)"
    using userMessage_order by blast
  from 1 2 3 example_userMessage show ?thesis unfolding m by blast
qed

text \<open>The property at a concrete input.\<close>

theorem user_message_fixed_order_witness:
  "handlePost_mapping \<in> {worker_mapping, handlePost_mapping, onRequestPost_mapping}
   \<and> userMessage handlePost_mapping
       (JObj [(lit ''roast'', JStr (lit ''Light'')), (lit ''name'', JStr (lit ''El Salvador Bourbon''))]) =
     Inr (lit ''Name: El Salvador Bourbon\<newline>Roast profile: Light'')
   \<and> specUserMessage
       (map_of [(lit ''roast'', JStr (lit ''Light'')), (lit ''name'', JStr (lit ''El Salvador Bourbon''))]) =
     lit ''Name: El Salvador Bourbon\<newline>Roast profile: Light''
   \<and> userMessage handlePost_mapping
       (JObj [(lit ''name'', JStr (lit ''El Salvador Bourbon'')), (lit ''roast'', JStr (lit ''Light''))]) =
     userMessage handlePost_mapping
       (JObj [(lit ''roast'', JStr (lit ''Light'')), (lit ''name'', JStr (lit ''El Salvador Bourbon''))])"
proof -
  have h: "handlePost_mapping \<in> {worker_mapping, handlePost_mapping, onRequestPost_mapping}" by simp
  have d: "distinct (map fst [(lit ''roast'', JStr (lit ''Light'')), (lit ''name'', JStr (lit ''El Salvador Bourbon''))])
     \<and> distinct (map fst [(lit ''name'', JStr (lit ''El Salvador Bourbon'')), (lit ''roast'', JStr (lit ''Light''))])
     \<and> set [(lit ''name'', JStr (lit ''El Salvador Bourbon'')), (lit ''roast'', JStr (lit ''Light''))] =
       set [(lit ''roast'', JStr (lit ''Light'')), (lit ''name'', JStr (lit ''El Salvador Bourbon''))]"
    by (auto simp: lit_def)
  from user_message_fixed_order [OF h,
      of "[(lit ''roast'', JStr (lit ''Light'')), (lit ''name'', JStr (lit ''El Salvador Bourbon''))]"
         "lit ''Name: El Salvador Bourbon\<newline>Roast profile: Light''"
         "[(lit ''name'', JStr (lit ''El Salvador Bourbon'')), (lit ''roast'', JStr (lit ''Light''))]"]
    h d example_swapped example_nothrow
  show ?thesis by (simp add: handlePost_mapping_eq)
qed

subsection \<open>C2\<close>

text \<open>
  C2. As the claim is worded, a value of a recognized key is left out of the prompt
  exactly when it is absent, \<open>null\<close> or only white space. The loop also leaves out \<open>false\<close> and
  \<open>0\<close>, which its truthiness test rejects. What holds: whenever the loop completes, the lines
  are those of the recognized keys whose value is not excluded, in the fixed order, where
  excluded means absent, \<open>null\<close>, \<open>false\<close>, \<open>0\<close>, or of a string that is empty once trimmed; a
  key has its line among them exactly when its value is not excluded. For the body
  \<open>{ "name": "  " }\<close> the message is empty.
\<close>

theorem excluded_values:
  assumes "mapping \<in> {worker_mapping, handlePost_mapping, onRequestPost_mapping}"
    and "pushLines mapping (JObj kvs) (Object_keys mapping) [] = Inr lines"
  shows "userMessage mapping (JObj kvs) = Inr (join lines (lit ''\<newline>''))
    \<and> lines = map (\<lambda>(key, label). label @ lit '': '' @ valueText (map_of kvs key))
                 (filter (\<lambda>(key, label). \<not> excludedValue (map_of kvs key)) recognizedKeys)
    \<and> (\<forall>(key, label) \<in> set recognizedKeys.
          (label @ lit '': '' @ valueText (map_of kvs key) \<in> set lines) = (\<not> excludedValue (map_of kvs key)))
    \<and> userMessage mapping (JObj [(lit ''name'', JStr (lit ''  ''))]) = Inr []"
proof -
  have m: "mapping = worker_mapping" by (rule mappings_eq [OF assms(1)])
  have nn: "JObj kvs \<noteq> JNull" by simp
  have ls: "pushLines worker_mapping (JObj kvs) (Object_keys worker_mapping) [] = Inr lines"
    using assms(2) by (simp add: m)
  have nothrow: "\<forall>key \<in> set (Object_keys worker_mapping). \<not> conversionThrows (ownFields (JObj kvs) key)"
    by (rule pushLines_throws [OF nn ls])
  then have nothrow': "\<And>key label. (key, label) \<in> set recognizedKeys \<Longrightarrow> \<not> conversionThrows (map_of kvs key)"
    by (force simp: Object_keys_def worker_mapping_recognized)
  have filt: "filter (\<lambda>(key, label). presenceFilter (map_of kvs key)) recognizedKeys =
      filter (\<lambda>(key, label). \<not> excludedValue (map_of kvs key)) recognizedKeys"
    by (rule filter_cong) (auto simp: presence_excluded [OF nothrow'])
  have "lines = renderedLines (map_of kvs) recognizedKeys"
    using pushLines_total [OF nn nothrow, of worker_mapping "[]"] ls
    by (simp add: renderedLines_def Object_keys_def worker_mapping_recognized
        mappingText_table [OF distinct_recognizedKeys subset_refl])
  then have 2: "lines = map (\<lambda>(key, label). label @ lit '': '' @ valueText (map_of kvs key))
                 (filter (\<lambda>(key, label). \<not> excludedValue (map_of kvs key)) recognizedKeys)"
    by (simp add: renderedLines_def filt)
  have 1: "userMessage mapping (JObj kvs) = Inr (join lines (lit ''\<newline>''))"
    using ls by (simp add: userMessage_def m)
  have 3: "\<forall>(key, label) \<in> set recognizedKeys.
          (label @ lit '': '' @ valueText (map_of kvs key) \<in> set lines) = (\<not> excludedValue (map_of kvs key))"
  proof (clarify, rule iffI)
    fix key label
    assume e: "(key, label) \<in> set recognizedKeys"
      and "label @ lit '': '' @ valueText (map_of kvs key) \<in> set lines"
    then obtain key' label' where e': "(key', label') \<in> set recognizedKeys"
      and x: "\<not> excludedValue (map_of kvs key')"
      and eq: "label @ lit '': '' @ valueText (map_of kvs key) = label' @ lit '': '' @ valueText (map_of kvs key')"
      unfolding 2 by auto
    from label_lines_differ [OF e e' eq] x show "\<not> excludedValue (map_of kvs key)" by simp
  next
    fix key label
    assume "(key, label) \<in> set recognizedKeys" and "\<not> excludedValue (map_of kvs key)"
    then show "label @ lit '': '' @ valueText (map_of kvs key) \<in> set lines"
      unfolding 2 by force
  qed
  have 4: "userMessage worker_mapping (JObj [(lit ''name'', JStr (lit ''  ''))]) = Inr []"
    by code_simp
  from 1 2 3 4 show ?thesis unfolding m by blast
qed

text \<open>The inputs at which the wording of the claim fails.\<close>

theorem excluded_values_counterexample:
  "\<not> blankValue (Some (JBool False))
   \<and> userMessage worker_mapping (JObj [(lit ''name'', JBool False)]) = Inr []
   \<and> \<not> blankValue (Some (JNum (lit ''0'')))
   \<and> userMessage worker_mapping (JObj [(lit ''masl'', JNum (lit ''0''))]) = Inr []"
  by code_simp

text \<open>The property at a concrete input.\<close>

theorem excluded_values_witness:
  "worker_mapping \<in> {worker_mapping, handlePost_mapping, onRequestPost_mapping}
   \<and> pushLines worker_mapping
        (JObj [(lit ''name'', JStr (lit ''  '')), (lit ''masl'', JNum (lit ''0'')), (lit ''roast'', JStr (lit ''Light''))])
        (Object_keys worker_mapping) [] = Inr [lit ''Roast profile: Light'']
   \<and> userMessage worker_mapping
        (JObj [(lit ''name'', JStr (lit ''  '')), (lit ''masl'', JNum (lit ''0'')), (lit ''roast'', JStr (lit ''Light''))]) =
      Inr (lit ''Roast profile: Light'')"
proof -
  have h: "worker_mapping \<in> {worker_mapping, handlePost_mapping, onRequestPost_mapping}" by simp
  have p: "pushLines worker_mapping
        (JObj [(lit ''name'', JStr (lit ''  '')), (lit ''masl'', JNum (lit ''0'')), (lit ''roast'', JStr (lit ''Light''))])
        (Object_keys worker_mapping) [] = Inr [lit ''Roast profile: Light'']"
    by code_simp
  from excluded_values [OF h p] h p show ?thesis by simp
qed

subsection \<open>C3\<close>

text \<open>
  C3. The Worker's \<open>fetch\<close> and the Pages functions answer alike, in the response
  (status, headers, body) and in the calls made, for every environment and upstream:
  \<open>onRequest\<close> and the Worker's \<open>fetch\<close> agree on every request; \<open>handlePost\<close> and
  \<open>onRequestPost\<close> agree on every request; \<open>onRequestPost\<close>, which the platform calls for
  \<open>POST\<close> requests only, agrees with the two dispatchers on every such request; and the Pages
  functions, as the platform routes requests to them, agree with the Worker's \<open>fetch\<close> on
  every request.
\<close>

theorem entry_points_agree:
  "onRequest fetch context = worker_fetch fetch (request context) (env context)
   \<and> handlePost fetch context = onRequestPost fetch context
   \<and> (method (request context) = lit ''POST'' \<longrightarrow>
        onRequestPost fetch context = worker_fetch fetch (request context) (env context))
   \<and> pagesRoute fetch context = worker_fetch fetch (request context) (env context)
   \<and> pagesRoute fetch context = onRequest fetch context"
  by (simp add: pagesRoute_def onRequest_relay worker_fetch_relay onRequestPost_relay handlePost_relay)

text \<open>The property at a concrete input.\<close>

theorem entry_points_agree_witness:
  "method (request \<lparr>request = examplePost, env = exampleEnv\<rparr>) = lit ''POST''
   \<and> onRequestPost rateLimited \<lparr>request = examplePost, env = exampleEnv\<rparr> =
     worker_fetch rateLimited examplePost exampleEnv
   \<and> onRequest rateLimited \<lparr>request = examplePost, env = exampleEnv\<rparr> =
     worker_fetch rateLimited examplePost exampleEnv
   \<and> pagesRoute rateLimited \<lparr>request = examplePost, env = exampleEnv\<rparr> =
     worker_fetch rateLimited examplePost exampleEnv
   \<and> status (fst (pagesRoute rateLimited \<lparr>request = examplePost, env = exampleEnv\<rparr>)) = 500
   \<and> pagesRoute noChoices \<lparr>request = getRequest, env = exampleEnv\<rparr> =
     worker_fetch noChoices getRequest exampleEnv
   \<and> status (fst (pagesRoute noChoices \<lparr>request = getRequest, env = exampleEnv\<rparr>)) = 405"
proof -
  have get: "method getRequest \<noteq> lit ''POST''" by (simp add: getRequest_def lit_def)
  have s500: "status (fst (worker_fetch rateLimited examplePost exampleEnv)) = 500"
    by (simp add: worker_fetch_relay method_examplePost example_relay rateLimited_def
        worker_translate_def)
  have s405: "status (fst (worker_fetch noChoices getRequest exampleEnv)) = 405"
    by (simp add: worker_fetch_relay get methodNotAllowed_def)
  from entry_points_agree [of rateLimited "\<lparr>request = examplePost, env = exampleEnv\<rparr>"]
    entry_points_agree [of noChoices "\<lparr>request = getRequest, env = exampleEnv\<rparr>"]
    s500 s405
  show ?thesis by (simp add: method_examplePost)
qed

subsection \<open>C4\<close>

text \<open>
  C4. For every request whose method is not \<open>POST\<close>, the Worker's \<open>fetch\<close> and
  \<open>onRequest\<close> respond with status 405 and the body \<open>{"error":"Method Not Allowed"}\<close>, and make
  no call upstream.
\<close>

theorem method_not_allowed:
  assumes "method req \<noteq> lit ''POST''"
  shows \<open>worker_fetch fetch req bindings =
      (\<lparr>status = 405, headers = [(lit ''Content-Type'', lit ''application/json'')],
        body = lit ''{"error":"Method Not Allowed"}''\<rparr>, [])
    \<and> onRequest fetch \<lparr>request = req, env = bindings\<rparr> =
      (\<lparr>status = 405, headers = [(lit ''Content-Type'', lit ''application/json'')],
        body = lit ''{"error":"Method Not Allowed"}''\<rparr>, [])\<close>
  using assms by (simp add: worker_fetch_relay onRequest_relay methodNotAllowed_def)

text \<open>The property at a concrete input.\<close>

theorem method_not_allowed_witness:
  \<open>method getRequest \<noteq> lit ''POST''
   \<and> status (fst (worker_fetch noChoices getRequest exampleEnv)) = 405
   \<and> snd (worker_fetch noChoices getRequest exampleEnv) = []\<close>
proof -
  have h: "method getRequest \<noteq> lit ''POST''"
    by (simp add: getRequest_def lit_def)
  from method_not_allowed [OF h, of noChoices exampleEnv] h show ?thesis by simp
qed

subsection \<open>C5\<close>



subsection \<open>C6\<close>

text \<open>
  C6. When the upstream answers the call with a status that is not a success
  and its body reads as the text \<open>t\<close>, the response has status 500 and the body
  \<open>{"error":"OpenAI API error","details":t}\<close>; for \<open>rate limited\<close> the body is exactly
  \<open>{"error":"OpenAI API error","details":"rate limited"}\<close>.
\<close>

theorem upstream_failure_gives_500:
  assumes "handler \<in> entryPoints"
    and "snd (handler fetch req bindings) = [call]"
    and "fetch call = Inr openaiRes"
    and "\<not> openai_ok openaiRes"
    and "openai_text openaiRes = Inr errorText"
  shows \<open>fst (handler fetch req bindings) =
      \<lparr>status = 500, headers = [(lit ''Content-Type'', lit ''application/json'')],
       body = lit ''{"error":"OpenAI API error","details":'' @ QuoteJSONString errorText @ lit ''}''\<rparr>
    \<and> (errorText = lit ''rate limited'' \<longrightarrow>
        body (fst (handler fetch req bindings)) = lit ''{"error":"OpenAI API error","details":"rate limited"}'')\<close>
proof -
  from assms(2) have "call \<in> set (snd (handler fetch req bindings))" by simp
  from entryPoints_call [OF assms(1) this] assms(3-5)
  have 1: \<open>fst (handler fetch req bindings) =
      \<lparr>status = 500, headers = [(lit ''Content-Type'', lit ''application/json'')],
       body = lit ''{"error":"OpenAI API error","details":'' @ QuoteJSONString errorText @ lit ''}''\<rparr>\<close>
    by (auto simp: worker_translate_def stringify_upstream_error simp del: JSON_stringify.simps)
  have \<open>lit ''{"error":"OpenAI API error","details":'' @ lit ''"rate limited"'' @ lit ''}'' =
      lit ''{"error":"OpenAI API error","details":"rate limited"}''\<close>
    by (simp add: lit_def)
  with 1 show ?thesis by (simp add: quote_rate_limited)
qed

text \<open>The property at a concrete input.\<close>

theorem upstream_failure_gives_500_witness:
  \<open>worker_fetch \<in> entryPoints
   \<and> snd (worker_fetch rateLimited examplePost exampleEnv) =
       [worker_call (lit ''Name: El Salvador Bourbon\<newline>Roast profile: Light'') exampleEnv]
   \<and> fst (worker_fetch rateLimited examplePost exampleEnv) =
      \<lparr>status = 500, headers = [(lit ''Content-Type'', lit ''application/json'')],
       body = lit ''{"error":"OpenAI API error","details":"rate limited"}''\<rparr>\<close>
proof -
  have h1: "worker_fetch \<in> entryPoints" by (rule worker_fetch_entryPoint)
  have h2: "snd (worker_fetch rateLimited examplePost exampleEnv) =
       [worker_call (lit ''Name: El Salvador Bourbon\<newline>Roast profile: Light'') exampleEnv]"
    by (simp add: worker_fetch_relay method_examplePost example_relay)
  have h3: "rateLimited (worker_call (lit ''Name: El Salvador Bourbon\<newline>Roast profile: Light'') exampleEnv) =
      Inr \<lparr>openai_ok = False, openai_text = Inr (lit ''rate limited''),
          openai_json = Inl (Rejection (SyntaxError (lit ''Unexpected token r in JSON at position 0'')))\<rparr>"
    by (simp add: rateLimited_def)
  from upstream_failure_gives_500 [OF h1 h2 h3, of "lit ''rate limited''"] h1 h2
  show ?thesis
    by (cases "fst (worker_fetch rateLimited examplePost exampleEnv)") simp
qed

subsection \<open>C7\<close>

text \<open>
  C7. As the claim is worded, every success of the upstream gives status 200 and
  the body \<open>{"html": c}\<close>, \<open>c\<close> the field \<open>choices[0].message.content\<close> or the empty string when
  the path is missing. A success whose JSON is \<open>null\<close> gives 400, and a \<open>content\<close> that is falsy
  is replaced by the empty string. What holds: when the upstream's JSON is not \<open>null\<close>, the
  response has status 200 and the body \<open>{"html": c}\<close>, where \<open>c\<close> is the value at
  \<open>choices[0].message.content\<close> when it is truthy and the empty string otherwise; without
  \<open>choices\<close> the body is exactly \<open>{"html":""}\<close>.
\<close>

theorem upstream_success_gives_200:
  assumes "handler \<in> entryPoints"
    and "snd (handler fetch req bindings) = [call]"
    and "fetch call = Inr openaiRes"
    and "openai_ok openaiRes"
    and "openai_json openaiRes = Inr result"
    and "result \<noteq> JNull"
  shows \<open>fst (handler fetch req bindings) =
      \<lparr>status = 200, headers = [(lit ''Content-Type'', lit ''application/json'')],
       body = lit ''{"html":'' @
         JSON_stringify
           (orEmpty (optProp (optProp (optIndex0 (ownFields result (lit ''choices''))) (lit ''message''))
              (lit ''content''))) @
         lit ''}''\<rparr>
    \<and> (result = JObj kvs \<and> map_of kvs (lit ''choices'') = Some (JArr (JObj first # others)) \<and>
        map_of first (lit ''message'') = Some (JObj msg) \<and> map_of msg (lit ''content'') = Some content \<longrightarrow>
        body (fst (handler fetch req bindings)) =
          lit ''{"html":'' @ JSON_stringify (if truthy (Some content) then content else JStr []) @ lit ''}'')
    \<and> (ownFields result (lit ''choices'') = None \<longrightarrow>
        body (fst (handler fetch req bindings)) = lit ''{"html":""}'')\<close>
proof -
  from assms(2) have "call \<in> set (snd (handler fetch req bindings))" by simp
  from entryPoints_call [OF assms(1) this] assms(3)
  have "fst (handler fetch req bindings) =
      (case worker_translate openaiRes of Inl err \<Rightarrow> invalidRequest err | Inr res \<Rightarrow> res)"
    by auto
  then have 1: \<open>fst (handler fetch req bindings) =
      \<lparr>status = 200, headers = [(lit ''Content-Type'', lit ''application/json'')],
       body = lit ''{"html":'' @
         JSON_stringify
           (orEmpty (optProp (optProp (optIndex0 (ownFields result (lit ''choices''))) (lit ''message''))
              (lit ''content''))) @
         lit ''}''\<rparr>\<close>
    by (simp add: translate_success [OF assms(4-6)] del: JSON_stringify.simps)
  have e: \<open>lit ''{"html":'' @ lit ''""'' @ lit ''}'' = lit ''{"html":""}''\<close>
    by (simp add: lit_def)
  have 2: \<open>result = JObj kvs \<and> map_of kvs (lit ''choices'') = Some (JArr (JObj first # others)) \<and>
        map_of first (lit ''message'') = Some (JObj msg) \<and> map_of msg (lit ''content'') = Some content \<longrightarrow>
        body (fst (handler fetch req bindings)) =
          lit ''{"html":'' @ JSON_stringify (if truthy (Some content) then content else JStr []) @ lit ''}''\<close>
    unfolding 1 by (auto simp del: JSON_stringify.simps)
  have 3: \<open>ownFields result (lit ''choices'') = None \<longrightarrow>
        body (fst (handler fetch req bindings)) = lit ''{"html":""}''\<close>
    unfolding 1 using e by (simp add: quote_empty)
  from 1 2 3 show ?thesis by blast
qed

text \<open>The inputs at which the wording of the claim fails.\<close>

theorem upstream_success_gives_200_counterexample:
  \<open>status (fst (worker_fetch nullResult examplePost exampleEnv)) = 400
   \<and> body (fst (worker_fetch falseContent examplePost exampleEnv)) = lit ''{"html":""}''\<close>
proof -
  have e: \<open>lit ''{"html":'' @ lit ''""'' @ lit ''}'' = lit ''{"html":""}''\<close>
    by (simp add: lit_def)
  have 1: "status (fst (worker_fetch nullResult examplePost exampleEnv)) = 400"
    by (simp add: worker_fetch_relay method_examplePost example_relay nullResult_def translate_null
        invalidRequest_def)
  have fc: "falseContent (worker_call (lit ''Name: El Salvador Bourbon\<newline>Roast profile: Light'') exampleEnv) =
      Inr \<lparr>openai_ok = True, openai_text = Inr [],
          openai_json = Inr (JObj [(lit ''choices'',
            JArr [JObj [(lit ''message'', JObj [(lit ''content'', JBool False)])]])])\<rparr>"
    by (simp add: falseContent_def)
  have \<open>body (fst (worker_fetch falseContent examplePost exampleEnv)) = lit ''{"html":""}''\<close>
    unfolding worker_fetch_relay example_relay fc
    by (simp add: method_examplePost translate_success e quote_empty)
  with 1 show ?thesis by simp
qed

text \<open>The property at a concrete input.\<close>

theorem upstream_success_gives_200_witness:
  \<open>worker_fetch \<in> entryPoints
   \<and> snd (worker_fetch noChoices examplePost exampleEnv) =
       [worker_call (lit ''Name: El Salvador Bourbon\<newline>Roast profile: Light'') exampleEnv]
   \<and> JObj [] \<noteq> JNull
   \<and> fst (worker_fetch noChoices examplePost exampleEnv) =
      \<lparr>status = 200, headers = [(lit ''Content-Type'', lit ''application/json'')],
       body = lit ''{"html":""}''\<rparr>
   \<and> body (fst (worker_fetch tableContent examplePost exampleEnv)) = lit ''{"html":"<table></table>"}''\<close>
proof -
  have h1: "worker_fetch \<in> entryPoints" by (rule worker_fetch_entryPoint)
  note h2 = example_trace [of noChoices]
  have h3: "noChoices (worker_call (lit ''Name: El Salvador Bourbon\<newline>Roast profile: Light'') exampleEnv) =
      Inr \<lparr>openai_ok = True, openai_text = Inr (lit ''{}''), openai_json = Inr (JObj [])\<rparr>"
    by (simp add: noChoices_def)
  have h6: "JObj [] \<noteq> JNull" by simp
  have e: \<open>lit ''{"html":'' @ lit ''""'' @ lit ''}'' = lit ''{"html":""}''\<close>
    by (simp add: lit_def)
  from upstream_success_gives_200 [OF h1 h2 h3 _ _ h6] e
  have w1: \<open>fst (worker_fetch noChoices examplePost exampleEnv) =
      \<lparr>status = 200, headers = [(lit ''Content-Type'', lit ''application/json'')],
       body = lit ''{"html":""}''\<rparr>\<close>
    by (simp add: quote_empty)
  have g3: "tableContent (worker_call (lit ''Name: El Salvador Bourbon\<newline>Roast profile: Light'') exampleEnv) =
      Inr \<lparr>openai_ok = True, openai_text = Inr [],
          openai_json = Inr (JObj [(lit ''choices'',
            JArr [JObj [(lit ''message'', JObj [(lit ''content'', JStr (lit ''<table></table>''))])]])])\<rparr>"
    by (simp add: tableContent_def)
  have q: \<open>QuoteJSONString (lit ''<table></table>'') = lit ''"<table></table>"''\<close>
    by code_simp
  have e': \<open>lit ''{"html":'' @ lit ''"<table></table>"'' @ lit ''}'' = lit ''{"html":"<table></table>"}''\<close>
    by (simp add: lit_def)
  have nonempty: "lit ''<table></table>'' \<noteq> []" by (simp add: lit_def)
  from upstream_success_gives_200 [OF h1 example_trace [of tableContent] g3,
      where result = "JObj [(lit ''choices'',
            JArr [JObj [(lit ''message'', JObj [(lit ''content'', JStr (lit ''<table></table>''))])]])]"
        and kvs = "[(lit ''choices'',
            JArr [JObj [(lit ''message'', JObj [(lit ''content'', JStr (lit ''<table></table>''))])]])]"
        and first = "[(lit ''message'', JObj [(lit ''content'', JStr (lit ''<table></table>''))])]"
        and others = "[]"
        and msg = "[(lit ''content'', JStr (lit ''<table></table>''))]"
        and content = "JStr (lit ''<table></table>'')"]
  have w2: \<open>body (fst (worker_fetch tableContent examplePost exampleEnv)) = lit ''{"html":"<table></table>"}''\<close>
    using nonempty e' by (simp add: q del: JSON_stringify.simps) (simp add: q)
  from h1 h2 h6 w1 w2 show ?thesis by blast
qed

subsection \<open>C8\<close>

text \<open>
  C8. As the claim is worded, every JSON body whose recognized fields are all
  absent, \<open>null\<close> or white space gives the empty user message and one call upstream. The body
  \<open>null\<close> has no such field and yet gives 400 without a call, since reading a property of
  \<open>null\<close> throws. What holds: for every body other than \<open>null\<close> whose recognized fields are all
  blank, the user message is empty and the handler makes exactly one call, whose body carries
  the empty user message.
\<close>

theorem empty_request_still_calls:
  assumes "handler \<in> entryPoints"
    and "mapping \<in> {worker_mapping, handlePost_mapping, onRequestPost_mapping}"
    and "method req = lit ''POST''"
    and "request_json req = Inr parsed"
    and "parsed \<noteq> JNull"
    and "\<forall>(key, label) \<in> set recognizedKeys. blankValue (ownFields parsed key)"
  shows \<open>userMessage mapping parsed = Inr []
    \<and> (\<exists>call. snd (handler fetch req bindings) = [call]
          \<and> fetch_body call =
              JSON_stringify
                (JObj [(lit ''model'', JStr (lit ''gpt-3.5-turbo'')),
                       (lit ''messages'',
                        JArr [JObj [(lit ''role'', JStr (lit ''system'')),
                                    (lit ''content'', JStr worker_systemPrompt)],
                              JObj [(lit ''role'', JStr (lit ''user'')), (lit ''content'', JStr [])]]),
                       (lit ''temperature'', JNum (lit ''0.5'')),
                       (lit ''max_tokens'', JNum (lit ''800''))])
          \<and> fetch_body call =
              lit ''{"model":"gpt-3.5-turbo","messages":[{"role":"system","content":'' @
              QuoteJSONString worker_systemPrompt @
              lit ''},{"role":"user","content":""}],"temperature":0.5,"max_tokens":800}'')\<close>
proof -
  have m: "mapping = worker_mapping" by (rule mappings_eq [OF assms(2)])
  have r: "handler fetch req bindings = relay fetch req bindings"
    by (rule entryPoints_relay [OF assms(1) assms(3)])
  have u: "userMessage worker_mapping parsed = Inr []"
    by (rule userMessage_blank [OF assms(5) assms(6)])
  have s: "snd (handler fetch req bindings) = [worker_call [] bindings]"
    unfolding r relay_def by (simp add: assms(4) u split: sum.splits)
  have b: "fetch_body (worker_call [] bindings) =
      JSON_stringify
        (JObj [(lit ''model'', JStr (lit ''gpt-3.5-turbo'')),
               (lit ''messages'',
                JArr [JObj [(lit ''role'', JStr (lit ''system'')),
                            (lit ''content'', JStr worker_systemPrompt)],
                      JObj [(lit ''role'', JStr (lit ''user'')), (lit ''content'', JStr [])]]),
               (lit ''temperature'', JNum (lit ''0.5'')),
               (lit ''max_tokens'', JNum (lit ''800''))])"
    unfolding worker_call_def worker_payload_def by simp
  have e: \<open>lit ''},{"role":"user","content":'' @ lit ''""'' @ lit ''}],"temperature":0.5,"max_tokens":800}'' =
      lit ''},{"role":"user","content":""}],"temperature":0.5,"max_tokens":800}''\<close>
    by (simp add: lit_def)
  have b': \<open>fetch_body (worker_call [] bindings) =
      lit ''{"model":"gpt-3.5-turbo","messages":[{"role":"system","content":'' @
      QuoteJSONString worker_systemPrompt @
      lit ''},{"role":"user","content":""}],"temperature":0.5,"max_tokens":800}''\<close>
    unfolding b stringify_payload quote_empty e by (rule refl)
  from u s b b' show ?thesis unfolding m by blast
qed

text \<open>The inputs at which the wording of the claim fails.\<close>

theorem empty_request_still_calls_counterexample:
  "status (fst (worker_fetch noChoices \<lparr>method = lit ''POST'', request_json = Inr JNull\<rparr> exampleEnv)) = 400
   \<and> snd (worker_fetch noChoices \<lparr>method = lit ''POST'', request_json = Inr JNull\<rparr> exampleEnv) = []
   \<and> ownFields JNull (lit ''name'') = None"
proof -
  obtain err where "userMessage worker_mapping JNull = Inl err"
    using userMessage_null [of worker_mapping] by (auto simp: worker_mapping_def)
  then show ?thesis
    by (simp add: worker_fetch_relay relay_def invalidRequest_def)
qed

text \<open>The property at a concrete input.\<close>

theorem empty_request_still_calls_witness:
  \<open>worker_fetch \<in> entryPoints
   \<and> worker_mapping \<in> {worker_mapping, handlePost_mapping, onRequestPost_mapping}
   \<and> method \<lparr>method = lit ''POST'',
        request_json = Inr (JObj [(lit ''name'', JStr (lit ''  '')), (lit ''roast'', JNull)])\<rparr> = lit ''POST''
   \<and> JObj [(lit ''name'', JStr (lit ''  '')), (lit ''roast'', JNull)] \<noteq> JNull
   \<and> list_all
        (\<lambda>(key, label). blankValue (ownFields (JObj [(lit ''name'', JStr (lit ''  '')), (lit ''roast'', JNull)]) key))
        recognizedKeys
   \<and> userMessage worker_mapping (JObj [(lit ''name'', JStr (lit ''  '')), (lit ''roast'', JNull)]) = Inr []
   \<and> length (snd (worker_fetch unreachable
        \<lparr>method = lit ''POST'',
         request_json = Inr (JObj [(lit ''name'', JStr (lit ''  '')), (lit ''roast'', JNull)])\<rparr>
        exampleEnv)) = 1\<close>
proof -
  have h1: "worker_fetch \<in> entryPoints" by (rule worker_fetch_entryPoint)
  have h2: "worker_mapping \<in> {worker_mapping, handlePost_mapping, onRequestPost_mapping}" by simp
  have h3: "method \<lparr>method = lit ''POST'',
        request_json = Inr (JObj [(lit ''name'', JStr (lit ''  '')), (lit ''roast'', JNull)])\<rparr> = lit ''POST''"
    by simp
  have h4: "request_json \<lparr>method = lit ''POST'',
        request_json = Inr (JObj [(lit ''name'', JStr (lit ''  '')), (lit ''roast'', JNull)])\<rparr> =
      Inr (JObj [(lit ''name'', JStr (lit ''  '')), (lit ''roast'', JNull)])"
    by simp
  have h5: "JObj [(lit ''name'', JStr (lit ''  '')), (lit ''roast'', JNull)] \<noteq> JNull" by simp
  have h6: "\<forall>(key, label) \<in> set recognizedKeys.
        blankValue (ownFields (JObj [(lit ''name'', JStr (lit ''  '')), (lit ''roast'', JNull)]) key)"
    by code_simp
  have h6': "list_all
        (\<lambda>(key, label). blankValue (ownFields (JObj [(lit ''name'', JStr (lit ''  '')), (lit ''roast'', JNull)]) key))
        recognizedKeys"
    using h6 by (simp add: list_all_iff)
  from empty_request_still_calls [OF h1 h2 h3 h4 h5 h6, of unreachable exampleEnv] h1 h2 h3 h5 h6'
  show ?thesis by auto
qed

subsection \<open>C9\<close>

text \<open>
  C9. Every call a handler makes upstream is its only one, and has as body the
  serialization of \<open>{ model: "gpt-3.5-turbo", messages: [system, user], temperature: 0.5,
  max_tokens: 800 }\<close>, the system message the constant prompt, the same in the three handlers, and
  the user message the one built from the request.
\<close>

theorem outbound_request_body:
  assumes "handler \<in> entryPoints"
    and "call \<in> set (snd (handler fetch req bindings))"
  shows \<open>\<exists>parsed userText.
      request_json req = Inr parsed
    \<and> userMessage worker_mapping parsed = Inr userText
    \<and> snd (handler fetch req bindings) = [call]
    \<and> fetch_body call =
        JSON_stringify
          (JObj [(lit ''model'', JStr (lit ''gpt-3.5-turbo'')),
                 (lit ''messages'',
                  JArr [JObj [(lit ''role'', JStr (lit ''system'')), (lit ''content'', JStr worker_systemPrompt)],
                        JObj [(lit ''role'', JStr (lit ''user'')), (lit ''content'', JStr userText)]]),
                 (lit ''temperature'', JNum (lit ''0.5'')),
                 (lit ''max_tokens'', JNum (lit ''800''))])
    \<and> fetch_body call =
        lit ''{"model":"gpt-3.5-turbo","messages":[{"role":"system","content":'' @
        QuoteJSONString worker_systemPrompt @
        lit ''},{"role":"user","content":'' @ QuoteJSONString userText @
        lit ''}],"temperature":0.5,"max_tokens":800}''
    \<and> handlePost_systemPrompt = worker_systemPrompt
    \<and> onRequestPost_systemPrompt = worker_systemPrompt\<close>
proof -
  from entryPoints_call [OF assms] obtain parsed userText where
    p: "request_json req = Inr parsed" and u: "userMessage worker_mapping parsed = Inr userText"
    and c: "call = worker_call userText bindings"
    and s: "snd (handler fetch req bindings) = [call]"
    by auto
  have b: "fetch_body call = JSON_stringify
          (JObj [(lit ''model'', JStr (lit ''gpt-3.5-turbo'')),
                 (lit ''messages'',
                  JArr [JObj [(lit ''role'', JStr (lit ''system'')), (lit ''content'', JStr worker_systemPrompt)],
                        JObj [(lit ''role'', JStr (lit ''user'')), (lit ''content'', JStr userText)]]),
                 (lit ''temperature'', JNum (lit ''0.5'')),
                 (lit ''max_tokens'', JNum (lit ''800''))])"
    unfolding c worker_call_def worker_payload_def by simp
  note b' = b [unfolded stringify_payload]
  from p u s b b' handlePost_systemPrompt_eq onRequestPost_systemPrompt_eq
  show ?thesis by blast
qed

text \<open>The property at a concrete input.\<close>

theorem outbound_request_body_witness:
  \<open>worker_fetch \<in> entryPoints
   \<and> worker_call (lit ''Name: El Salvador Bourbon\<newline>Roast profile: Light'') exampleEnv
       \<in> set (snd (worker_fetch noChoices examplePost exampleEnv))
   \<and> fetch_body (worker_call (lit ''Name: El Salvador Bourbon\<newline>Roast profile: Light'') exampleEnv) =
        lit ''{"model":"gpt-3.5-turbo","messages":[{"role":"system","content":'' @
        QuoteJSONString worker_systemPrompt @
        lit ''},{"role":"user","content":"Name: El Salvador Bourbon'' @ [0x5C, 0x6E] @
        lit ''Roast profile: Light"}],"temperature":0.5,"max_tokens":800}''\<close>
proof -
  have h1: "worker_fetch \<in> entryPoints" by (rule worker_fetch_entryPoint)
  have h2: "worker_call (lit ''Name: El Salvador Bourbon\<newline>Roast profile: Light'') exampleEnv
       \<in> set (snd (worker_fetch noChoices examplePost exampleEnv))"
    by (simp add: example_trace)
  have q: \<open>QuoteJSONString (lit ''Name: El Salvador Bourbon\<newline>Roast profile: Light'') =
      lit ''"Name: El Salvador Bourbon'' @ [0x5C, 0x6E] @ lit ''Roast profile: Light"''\<close>
    by code_simp
  from outbound_request_body [OF h1 h2] obtain parsed userText where
    p: "request_json examplePost = Inr parsed" and u: "userMessage worker_mapping parsed = Inr userText"
    and b: \<open>fetch_body (worker_call (lit ''Name: El Salvador Bourbon\<newline>Roast profile: Light'') exampleEnv) =
        lit ''{"model":"gpt-3.5-turbo","messages":[{"role":"system","content":'' @
        QuoteJSONString worker_systemPrompt @
        lit ''},{"role":"user","content":'' @ QuoteJSONString userText @
        lit ''}],"temperature":0.5,"max_tokens":800}''\<close>
    by blast
  from p u have "userText = lit ''Name: El Salvador Bourbon\<newline>Roast profile: Light''"
    using example_userMessage by (auto simp: examplePost_def)
  with b h1 h2 show ?thesis by (simp add: q) (simp add: lit_def)
qed

subsection \<open>C10\<close>

text \<open>
  C10. Every response of every entry point, whatever its status, has the one header
  \<open>Content-Type: application/json\<close>.
\<close>

theorem content_type_everywhere:
  "headers (fst (worker_fetch fetch req bindings)) = [(lit ''Content-Type'', lit ''application/json'')]
   \<and> headers (fst (onRequest fetch context)) = [(lit ''Content-Type'', lit ''application/json'')]
   \<and> headers (fst (handlePost fetch context)) = [(lit ''Content-Type'', lit ''application/json'')]
   \<and> headers (fst (onRequestPost fetch context)) = [(lit ''Content-Type'', lit ''application/json'')]"
  by (simp add: worker_fetch_relay onRequest_relay handlePost_relay onRequestPost_relay relay_headers
      methodNotAllowed_def)

text \<open>The property at a concrete input.\<close>

theorem content_type_everywhere_witness:
  "headers (fst (worker_fetch rateLimited examplePost exampleEnv)) =
     [(lit ''Content-Type'', lit ''application/json'')]
   \<and> headers (fst (onRequestPost unreachable \<lparr>request = examplePost, env = exampleEnv\<rparr>)) =
     [(lit ''Content-Type'', lit ''application/json'')]"
  using content_type_everywhere [of rateLimited examplePost exampleEnv]
    content_type_everywhere [of unreachable _ _ "\<lparr>request = examplePost, env = exampleEnv\<rparr>"]
  by simp

end
